theory Spec2Isabelle
  imports Complex_Main
begin

section \<open>Values, failures and random draws\<close>

text \<open>
  Offers, utilities and probabilities are Python numbers (ints and floats mixed freely);
  they are modelled as \<open>real\<close>, so rounding and overflow of floats are idealised away.
  Printing under \<open>verbose\<close> and plotting under \<open>plot\<close> change no state and are left out.
  The two player objects of a game are distinct and own their strategy objects; a player is
  referred to by its identity, which is what \<^verbatim>\<open>self_player == game.player1\<close> tests.
\<close>

datatype error =
    NotImplementedError
  | AssertionError string
  | ValueError string
  | KeyError
  | TypeError

datatype player_id = Player1 | Player2

text \<open>
  The values the module \<^verbatim>\<open>random\<close> hands out during one round, in the order of the calls:
  the \<^verbatim>\<open>random()\<close> inside the proposer's \<^verbatim>\<open>uniform\<close>, the standard normal deviate inside
  its \<^verbatim>\<open>gauss\<close>, the responder's \<^verbatim>\<open>random()\<close>, the \<^verbatim>\<open>random()\<close> inside the two penalty
  \<^verbatim>\<open>uniform\<close> calls, and the \<^verbatim>\<open>random()\<close> of the role switch.
\<close>

record draws =
  u_propose :: real
  z_propose :: real
  u_respond :: real
  u_proposer_penalty :: real
  u_receiver_penalty :: real
  u_switch :: real

text \<open>\<^verbatim>\<open>random.uniform(a, b)\<close> is \<^verbatim>\<open>a + (b - a) * random()\<close>; \<^verbatim>\<open>random.gauss(mu, sigma)\<close> is
  \<^verbatim>\<open>mu + z * sigma\<close> for a standard normal deviate \<^verbatim>\<open>z\<close>.\<close>

definition uniform :: "real \<Rightarrow> real \<Rightarrow> real \<Rightarrow> real" where
  "uniform a b u = a + (b - a) * u"

definition gauss :: "real \<Rightarrow> real \<Rightarrow> real \<Rightarrow> real" where
  "gauss mu sigma z = mu + z * sigma"

section \<open>Strategy objects\<close>

record level_stats =
  trials :: nat
  accepts :: nat

text \<open>
  One constructor per class of \<^verbatim>\<open>strategies/proposers.py\<close>, holding the instance fields in
  the order \<^verbatim>\<open>__init__\<close> assigns them; \<open>ProposerStrategy\<close> is a bare instance of the parent
  class. The fields of \<open>ForwardLookingProposer\<close> are offer_levels, horizon,
  prior_accept_prob, responder_utility_estimate and accept_stats.
\<close>

datatype proposer_strategy =
    ProposerStrategy
  | ConcedingProposer real real
  | RandomProposer string "real option" "real option"
  | TitForTatProposer "real option"
  | LearningProposer real real
  | BinarySearchProposer real real real
  | RiskAwareProposer "real list" "real \<Rightarrow> level_stats option" "real list"
  | ForwardLookingProposer "real list" int real real "real \<Rightarrow> level_stats option"

text \<open>
  One constructor per class of \<^verbatim>\<open>strategies/responders.py\<close>. The fields of
  \<open>StrategicRejectorResponder\<close> are stagnation_tolerance, epsilon, prev_offer, streak
  and min_offer.
\<close>

datatype responder_strategy =
    ResponderStrategy
  | UtilitarianResponder
  | TitForTatResponder "real option"
  | ProbabilisticResponder real
  | StrategicRejectorResponder int real "real option" int real

section \<open>Players and the game\<close>

record player =
  name :: string
  proposer_strategy :: proposer_strategy
  responder_strategy :: responder_strategy
  utility :: real

definition Player_init :: "string \<Rightarrow> proposer_strategy \<Rightarrow> responder_strategy \<Rightarrow> player" where
  "Player_init nm ps rs =
     \<lparr>name = nm, proposer_strategy = ps, responder_strategy = rs, utility = 0\<rparr>"

record round_record =
  rr_round :: nat
  rr_proposer :: string
  rr_offer :: real
  rr_accepted :: bool
  rr_player1_utility :: real
  rr_player2_utility :: real
  rr_next_round_switching_prob :: real

record game =
  player1 :: player
  player2 :: player
  p :: real
  p_base :: real
  p_current :: real
  p_reject_bump :: real
  p_reset_on_accept :: bool
  player_1_bad :: real
  player_2_bad :: real
  proposer_bad :: real
  receiver_bad :: real
  proposer :: player_id
  receiver :: player_id
  history :: "round_record list"
  verbose :: bool
  min_offer :: real
  max_offer :: real
  plot :: bool
  proposer_random_penalty_range :: "real \<times> real"
  receiver_random_penalty_range :: "real \<times> real"

text \<open>\<^verbatim>\<open>Game.__init__\<close>; the keyword defaults are \<open>verbose = True\<close>, \<open>min_offer = 0\<close>,
  \<open>max_offer = 100\<close>, \<open>plot = False\<close>, both penalty ranges \<open>(0, 0)\<close> and
  \<open>p_reject_bump = 0\<close>.\<close>

definition Game_init ::
  "player \<Rightarrow> player \<Rightarrow> real \<Rightarrow> real \<Rightarrow> real \<Rightarrow> real \<Rightarrow> real \<Rightarrow> bool \<Rightarrow> real \<Rightarrow> real \<Rightarrow> bool
     \<Rightarrow> real \<times> real \<Rightarrow> real \<times> real \<Rightarrow> real \<Rightarrow> game" where
  "Game_init pl1 pl2 pr p1_bad p2_bad prop_bad recv_bad verb mn mx plt prop_range recv_range bump =
     \<lparr>player1 = pl1, player2 = pl2, p = pr, p_base = pr, p_current = pr,
      p_reject_bump = bump, p_reset_on_accept = True,
      player_1_bad = p1_bad, player_2_bad = p2_bad,
      proposer_bad = prop_bad, receiver_bad = recv_bad,
      proposer = Player1, receiver = Player2, history = [],
      verbose = verb, min_offer = mn, max_offer = mx, plot = plt,
      proposer_random_penalty_range = prop_range,
      receiver_random_penalty_range = recv_range\<rparr>"

definition get_player :: "game \<Rightarrow> player_id \<Rightarrow> player" where
  "get_player g i = (case i of Player1 \<Rightarrow> player1 g | Player2 \<Rightarrow> player2 g)"

definition update_player :: "player_id \<Rightarrow> (player \<Rightarrow> player) \<Rightarrow> game \<Rightarrow> game" where
  "update_player i f g =
     (case i of Player1 \<Rightarrow> g\<lparr>player1 := f (player1 g)\<rparr>
              | Player2 \<Rightarrow> g\<lparr>player2 := f (player2 g)\<rparr>)"

definition get_bad_utility :: "game \<Rightarrow> player_id \<Rightarrow> bool \<Rightarrow> real" where
  "get_bad_utility g pl is_proposer =
     (if pl = Player1
      then player_1_bad g + (if is_proposer then proposer_bad g else receiver_bad g)
      else player_2_bad g + (if is_proposer then proposer_bad g else receiver_bad g))"

section \<open>Proposer strategies\<close>

subsection \<open>Constructors\<close>

definition ConcedingProposer_init :: "real \<Rightarrow> real \<Rightarrow> proposer_strategy" where
  "ConcedingProposer_init start_offer decrement = ConcedingProposer start_offer decrement"

text \<open>The constructor of \<open>RandomProposer\<close> stores its arguments and checks nothing.\<close>

definition RandomProposer_init :: "string \<Rightarrow> real option \<Rightarrow> real option \<Rightarrow> proposer_strategy" where
  "RandomProposer_init distribution mean stddev = RandomProposer distribution mean stddev"

definition TitForTatProposer_init :: proposer_strategy where
  "TitForTatProposer_init = TitForTatProposer None"

definition LearningProposer_init :: "real \<Rightarrow> real \<Rightarrow> proposer_strategy" where
  "LearningProposer_init start_offer step_size = LearningProposer start_offer step_size"

definition BinarySearchProposer_init :: "real \<Rightarrow> real \<Rightarrow> proposer_strategy" where
  "BinarySearchProposer_init mn mx = BinarySearchProposer mn mx ((mn + mx) / 2)"

text \<open>\<^verbatim>\<open>offer_levels or list(range(0, 101, 10))\<close>: a missing or empty list gives the default grid.\<close>

definition default_offer_levels :: "real list" where
  "default_offer_levels = [0, 10, 20, 30, 40, 50, 60, 70, 80, 90, 100]"

definition offer_levels_or_default :: "real list option \<Rightarrow> real list" where
  "offer_levels_or_default lv =
     (case lv of None \<Rightarrow> default_offer_levels
               | Some xs \<Rightarrow> (if xs = [] then default_offer_levels else xs))"

definition fresh_stats :: "real list \<Rightarrow> real \<Rightarrow> level_stats option" where
  "fresh_stats levels = map_of (map (\<lambda>x. (x, \<lparr>trials = 0, accepts = 0\<rparr>)) levels)"

definition RiskAwareProposer_init :: "real list option \<Rightarrow> proposer_strategy" where
  "RiskAwareProposer_init lv =
     (let levels = offer_levels_or_default lv
      in RiskAwareProposer levels (fresh_stats levels) [])"

definition ForwardLookingProposer_init ::
  "real list option \<Rightarrow> int \<Rightarrow> real \<Rightarrow> real \<Rightarrow> proposer_strategy" where
  "ForwardLookingProposer_init lv horizon prior_accept_prob responder_utility_estimate =
     (let levels = offer_levels_or_default lv
      in ForwardLookingProposer levels horizon prior_accept_prob responder_utility_estimate
           (fresh_stats levels))"

subsection \<open>propose\<close>

text \<open>\<^verbatim>\<open>float("-inf")\<close> as the running best is \<open>None\<close>: every value exceeds it.\<close>

definition exceeds :: "real \<Rightarrow> real option \<Rightarrow> bool" where
  "exceeds x best = (case best of None \<Rightarrow> True | Some b \<Rightarrow> x > b)"

fun risk_aware_loop ::
  "real list \<Rightarrow> (real \<Rightarrow> level_stats option) \<Rightarrow> real list \<Rightarrow> real
     \<Rightarrow> real option \<Rightarrow> real option \<Rightarrow> error + real option" where
  "risk_aware_loop [] st pens default_reject_utility best_offer best_eu = Inr best_offer"
| "risk_aware_loop (x # xs) st pens default_reject_utility best_offer best_eu =
     (case st x of
        None \<Rightarrow> Inl KeyError
      | Some s \<Rightarrow>
          (let p_accept = (if trials s = 0 then 0.5 else real (accepts s) / real (trials s));
               avg_reject_utility =
                 (if pens \<noteq> [] then sum_list pens / real (length pens)
                  else default_reject_utility);
               expected_utility = p_accept * x + (1 - p_accept) * avg_reject_utility
           in if exceeds expected_utility best_eu
              then risk_aware_loop xs st pens default_reject_utility (Some x) (Some expected_utility)
              else risk_aware_loop xs st pens default_reject_utility best_offer best_eu))"

definition estimate_accept_prob ::
  "(real \<Rightarrow> level_stats option) \<Rightarrow> real \<Rightarrow> real \<Rightarrow> error + real" where
  "estimate_accept_prob st prior x =
     (case st x of
        None \<Rightarrow> Inl KeyError
      | Some s \<Rightarrow> Inr (if trials s = 0 then prior else real (accepts s) / real (trials s)))"

fun eu_reject_loop :: "nat list \<Rightarrow> real \<Rightarrow> real \<Rightarrow> real \<Rightarrow> real \<Rightarrow> real \<Rightarrow> real" where
  "eu_reject_loop [] bumped_p proposer_util estimate role_prob eu_reject = eu_reject"
| "eu_reject_loop (t # ts) bumped_p proposer_util estimate role_prob eu_reject =
     (let role_prob' = role_prob * (1 - bumped_p)
      in eu_reject_loop ts bumped_p proposer_util estimate role_prob'
           (eu_reject + role_prob' * proposer_util + (1 - role_prob') * estimate))"

definition simulate_expected_utility ::
  "int \<Rightarrow> real \<Rightarrow> real \<Rightarrow> real \<Rightarrow> game \<Rightarrow> player_id \<Rightarrow> real" where
  "simulate_expected_utility horizon estimate x p_accept g self_player =
     (let proposer_util = x;
          reject_penalty = get_bad_utility g self_player True;
          base_p = p_base g;
          bump = p_reject_bump g;
          bumped_p = min 1 (base_p + bump);
          eu_accept = sum_list (map (\<lambda>t. (1 - base_p) ^ t * proposer_util) [0..<nat horizon]);
          eu_reject = eu_reject_loop [1..<nat horizon] bumped_p proposer_util estimate 1
                        reject_penalty
      in p_accept * eu_accept + (1 - p_accept) * eu_reject)"

fun forward_looking_loop ::
  "real list \<Rightarrow> (real \<Rightarrow> level_stats option) \<Rightarrow> int \<Rightarrow> real \<Rightarrow> real \<Rightarrow> game \<Rightarrow> player_id
     \<Rightarrow> real option \<Rightarrow> real option \<Rightarrow> error + real option" where
  "forward_looking_loop [] st horizon prior estimate g self_player best_offer best_eu =
     Inr best_offer"
| "forward_looking_loop (x # xs) st horizon prior estimate g self_player best_offer best_eu =
     (case estimate_accept_prob st prior x of
        Inl e \<Rightarrow> Inl e
      | Inr p_accept \<Rightarrow>
          (let eu = simulate_expected_utility horizon estimate x p_accept g self_player
           in if exceeds eu best_eu
              then forward_looking_loop xs st horizon prior estimate g self_player
                     (Some x) (Some eu)
              else forward_looking_loop xs st horizon prior estimate g self_player
                     best_offer best_eu))"

definition clamp_offer :: "game \<Rightarrow> real \<Rightarrow> real" where
  "clamp_offer g x = max (min_offer g) (min x (max_offer g))"

text \<open>
  \<^verbatim>\<open>propose(game, self_player)\<close> returns the offer and the strategy object as the call
  leaves it. A grid search that ends with \<^verbatim>\<open>best_offer = None\<close> (an empty grid) returns
  \<^verbatim>\<open>None\<close> in Python, which every responder then negates: the \<open>TypeError\<close> of that negation
  is reported here.
\<close>

fun propose ::
  "proposer_strategy \<Rightarrow> game \<Rightarrow> player_id \<Rightarrow> draws \<Rightarrow> error + (real \<times> proposer_strategy)" where
  "propose ProposerStrategy g self_player d = Inl NotImplementedError"
| "propose (ConcedingProposer current_offer decrement) g self_player d =
     Inr (clamp_offer g current_offer, ConcedingProposer current_offer decrement)"
| "propose (RandomProposer distribution mean stddev) g self_player d =
     (if distribution = ''uniform''
      then Inr (clamp_offer g (uniform (min_offer g) (max_offer g) (u_propose d)),
                RandomProposer distribution mean stddev)
      else if distribution = ''normal''
      then (case (mean, stddev) of
              (Some mu, Some sigma) \<Rightarrow>
                Inr (clamp_offer g (gauss mu sigma (z_propose d)),
                     RandomProposer distribution mean stddev)
            | _ \<Rightarrow> Inl (AssertionError ''Normal distribution requires mean and stddev''))
      else Inl (ValueError (''Unknown distribution: '' @ distribution)))"
| "propose (TitForTatProposer last_opponent_offer) g self_player d =
     (case last_opponent_offer of
        None \<Rightarrow> Inr (0, TitForTatProposer last_opponent_offer)
      | Some x \<Rightarrow> Inr (x, TitForTatProposer last_opponent_offer))"
| "propose (LearningProposer current_offer step_size) g self_player d =
     Inr (clamp_offer g current_offer, LearningProposer current_offer step_size)"
| "propose (BinarySearchProposer low high last_offer) g self_player d =
     Inr ((low + high) / 2, BinarySearchProposer low high ((low + high) / 2))"
| "propose (RiskAwareProposer offer_levels st pens) g self_player d =
     (let default_reject_utility =
            (if self_player = Player1 then player_1_bad g + proposer_bad g
             else player_2_bad g + proposer_bad g)
      in case risk_aware_loop offer_levels st pens default_reject_utility None None of
           Inl e \<Rightarrow> Inl e
         | Inr None \<Rightarrow> Inl TypeError
         | Inr (Some x) \<Rightarrow> Inr (x, RiskAwareProposer offer_levels st pens))"
| "propose (ForwardLookingProposer offer_levels horizon prior estimate st) g self_player d =
     (case forward_looking_loop offer_levels st horizon prior estimate g self_player None None of
        Inl e \<Rightarrow> Inl e
      | Inr None \<Rightarrow> Inl TypeError
      | Inr (Some x) \<Rightarrow>
          Inr (x, ForwardLookingProposer offer_levels horizon prior estimate st))"

subsection \<open>receive_feedback and the opponent-offer hook\<close>

definition bump_stats :: "level_stats \<Rightarrow> bool \<Rightarrow> level_stats" where
  "bump_stats s acc =
     \<lparr>trials = trials s + 1, accepts = (if acc then accepts s + 1 else accepts s)\<rparr>"

fun receive_feedback ::
  "proposer_strategy \<Rightarrow> bool \<Rightarrow> real \<Rightarrow> game \<Rightarrow> error + proposer_strategy" where
  "receive_feedback ProposerStrategy acc x g = Inr ProposerStrategy"
| "receive_feedback (ConcedingProposer current_offer decrement) acc x g =
     Inr (if \<not> acc then ConcedingProposer (current_offer - decrement) decrement
          else ConcedingProposer current_offer decrement)"
| "receive_feedback (RandomProposer distribution mean stddev) acc x g =
     Inr (RandomProposer distribution mean stddev)"
| "receive_feedback (TitForTatProposer last_opponent_offer) acc x g =
     Inr (TitForTatProposer last_opponent_offer)"
| "receive_feedback (LearningProposer current_offer step_size) acc x g =
     Inr (if acc then LearningProposer (current_offer + step_size) step_size
          else LearningProposer (current_offer - step_size) step_size)"
| "receive_feedback (BinarySearchProposer low high last_offer) acc x g =
     Inr (if acc then BinarySearchProposer (max low x) high last_offer
          else BinarySearchProposer low (min high x) last_offer)"
| "receive_feedback (RiskAwareProposer offer_levels st pens) acc x g =
     (case st x of
        None \<Rightarrow> Inl KeyError
      | Some s \<Rightarrow>
          Inr (if acc then RiskAwareProposer offer_levels (st(x \<mapsto> bump_stats s acc)) pens
               else RiskAwareProposer offer_levels (st(x \<mapsto> bump_stats s acc))
                      (pens @ [get_bad_utility g (proposer g) True])))"
| "receive_feedback (ForwardLookingProposer offer_levels horizon prior estimate st) acc x g =
     (case st x of
        None \<Rightarrow> Inl KeyError
      | Some s \<Rightarrow>
          Inr (if acc
               then ForwardLookingProposer offer_levels horizon prior estimate
                      (st(x \<mapsto> bump_stats s acc))
               else ForwardLookingProposer offer_levels horizon prior
                      (0.9 * estimate + 0.1 * get_bad_utility g (proposer g) True)
                      (st(x \<mapsto> bump_stats s acc))))"

text \<open>\<^verbatim>\<open>hasattr(strategy, "observe_offer_from_opponent")\<close>: only \<open>TitForTatProposer\<close> has it.\<close>

fun has_observe_offer_from_opponent :: "proposer_strategy \<Rightarrow> bool" where
  "has_observe_offer_from_opponent (TitForTatProposer last_opponent_offer) = True"
| "has_observe_offer_from_opponent ps = False"

fun observe_offer_from_opponent :: "proposer_strategy \<Rightarrow> real \<Rightarrow> proposer_strategy" where
  "observe_offer_from_opponent (TitForTatProposer last_opponent_offer) x =
     (if x \<noteq> 0 then TitForTatProposer (Some x) else TitForTatProposer last_opponent_offer)"
| "observe_offer_from_opponent ps x = ps"

section \<open>Responder strategies\<close>

definition TitForTatResponder_init :: responder_strategy where
  "TitForTatResponder_init = TitForTatResponder None"

definition ProbabilisticResponder_init :: "real \<Rightarrow> responder_strategy" where
  "ProbabilisticResponder_init alpha = ProbabilisticResponder alpha"

text \<open>The keyword defaults are \<open>stagnation_tolerance = 4\<close>, \<open>epsilon = 1e-2\<close> and
  \<open>min_offer = 0\<close>.\<close>

definition StrategicRejectorResponder_init :: "int \<Rightarrow> real \<Rightarrow> real \<Rightarrow> responder_strategy" where
  "StrategicRejectorResponder_init stagnation_tolerance epsilon mn =
     StrategicRejectorResponder stagnation_tolerance epsilon None 0 mn"

text \<open>\<^verbatim>\<open>respond(offer, game, self_player)\<close> returns the decision and the strategy object as
  the call leaves it.\<close>

fun respond ::
  "responder_strategy \<Rightarrow> real \<Rightarrow> game \<Rightarrow> player_id \<Rightarrow> draws
     \<Rightarrow> error + (bool \<times> responder_strategy)" where
  "respond ResponderStrategy x g self_player d = Inl NotImplementedError"
| "respond UtilitarianResponder x g self_player d =
     (let bad_utility =
            (if self_player = Player1 then player_1_bad g + receiver_bad g
             else player_2_bad g + receiver_bad g)
      in Inr (- x > bad_utility, UtilitarianResponder))"
| "respond (TitForTatResponder last_offer) x g self_player d =
     (let current_utility = - x;
          bad_utility =
            (if self_player = Player1 then player_1_bad g + receiver_bad g
             else player_2_bad g + receiver_bad g)
      in case last_offer of
           None \<Rightarrow> Inr (current_utility > bad_utility, TitForTatResponder last_offer)
         | Some lo \<Rightarrow>
             Inr (current_utility \<ge> lo \<and> current_utility > bad_utility,
                  TitForTatResponder last_offer))"
| "respond (ProbabilisticResponder alpha) x g self_player d =
     (let utility_accept = - x;
          utility_reject =
            (if self_player = Player1 then player_1_bad g + receiver_bad g
             else player_2_bad g + receiver_bad g);
          utility_diff = utility_accept - utility_reject;
          prob_accept = 1 / (1 + exp (- alpha * utility_diff))
      in Inr (u_respond d < prob_accept, ProbabilisticResponder alpha))"
| "respond (StrategicRejectorResponder tolerance epsilon prev_offer streak mn) x g self_player d =
     (let responder_utility = - x;
          reject_utility = get_bad_utility g self_player False
      in if responder_utility < reject_utility
         then Inr (False, StrategicRejectorResponder tolerance epsilon prev_offer streak mn)
         else if x \<le> mn + epsilon
         then Inr (True, StrategicRejectorResponder tolerance epsilon prev_offer streak mn)
         else (case prev_offer of
                 None \<Rightarrow> Inr (True, StrategicRejectorResponder tolerance epsilon (Some x) streak mn)
               | Some pv \<Rightarrow>
                   (let streak' = (if x \<ge> pv - epsilon then streak + 1 else 0)
                    in Inr (streak' < tolerance,
                            StrategicRejectorResponder tolerance epsilon (Some x) streak' mn))))"

text \<open>\<^verbatim>\<open>TitForTatResponder.receive_feedback(offer, accepted)\<close>; the parent class's hook does
  nothing.\<close>

fun responder_receive_feedback :: "responder_strategy \<Rightarrow> real \<Rightarrow> bool \<Rightarrow> responder_strategy" where
  "responder_receive_feedback (TitForTatResponder last_offer) x acc = TitForTatResponder (Some (- x))"
| "responder_receive_feedback rs x acc = rs"

section \<open>The round\<close>

text \<open>\<^verbatim>\<open>Player.make_offer\<close> and \<^verbatim>\<open>Player.respond_to_offer\<close>, with the strategy object written
  back into the player.\<close>

definition make_offer :: "game \<Rightarrow> player_id \<Rightarrow> draws \<Rightarrow> error + (real \<times> game)" where
  "make_offer g i d =
     (case propose (proposer_strategy (get_player g i)) g i d of
        Inl e \<Rightarrow> Inl e
      | Inr (x, ps) \<Rightarrow> Inr (x, update_player i (\<lambda>pl. pl\<lparr>proposer_strategy := ps\<rparr>) g))"

definition respond_to_offer ::
  "game \<Rightarrow> player_id \<Rightarrow> real \<Rightarrow> draws \<Rightarrow> error + (bool \<times> game)" where
  "respond_to_offer g i x d =
     (case respond (responder_strategy (get_player g i)) x g i d of
        Inl e \<Rightarrow> Inl e
      | Inr (acc, rs) \<Rightarrow> Inr (acc, update_player i (\<lambda>pl. pl\<lparr>responder_strategy := rs\<rparr>) g))"

text \<open>Lines 73 and 74 of \<^verbatim>\<open>core.py\<close>: the receiver's proposer strategy sees the offer.\<close>

definition notify_observer :: "game \<Rightarrow> real \<Rightarrow> game" where
  "notify_observer g x =
     (if has_observe_offer_from_opponent (proposer_strategy (get_player g (receiver g)))
      then update_player (receiver g)
             (\<lambda>pl. pl\<lparr>proposer_strategy :=
                        observe_offer_from_opponent (proposer_strategy pl) x\<rparr>) g
      else g)"

definition add_utility :: "player_id \<Rightarrow> real \<Rightarrow> game \<Rightarrow> game" where
  "add_utility i x g = update_player i (\<lambda>pl. pl\<lparr>utility := utility pl + x\<rparr>) g"

text \<open>Lines 79 to 105: the two branches of \<^verbatim>\<open>if accepted\<close>.\<close>

definition settle :: "game \<Rightarrow> real \<Rightarrow> bool \<Rightarrow> draws \<Rightarrow> game" where
  "settle g x acc d =
     (if acc
      then (let g1 = (if p_reset_on_accept g then g\<lparr>p_current := p_base g\<rparr> else g);
                g2 = add_utility (proposer g1) x g1
            in add_utility (receiver g2) (- x) g2)
      else (let g1 = g\<lparr>p_current := min 1 (p_current g + p_reject_bump g)\<rparr>;
                proposer_penalty =
                  get_bad_utility g1 (proposer g1) True
                  + uniform (fst (proposer_random_penalty_range g1))
                      (snd (proposer_random_penalty_range g1)) (u_proposer_penalty d);
                receiver_penalty =
                  get_bad_utility g1 (receiver g1) False
                  + uniform (fst (receiver_random_penalty_range g1))
                      (snd (receiver_random_penalty_range g1)) (u_receiver_penalty d);
                g2 = add_utility (proposer g1) proposer_penalty g1
            in add_utility (receiver g2) receiver_penalty g2))"

text \<open>Lines 107 to 115.\<close>

definition append_history :: "game \<Rightarrow> real \<Rightarrow> bool \<Rightarrow> game" where
  "append_history g x acc =
     g\<lparr>history := history g @
         [\<lparr>rr_round = length (history g) + 1,
           rr_proposer = name (get_player g (proposer g)),
           rr_offer = x,
           rr_accepted = acc,
           rr_player1_utility = utility (player1 g),
           rr_player2_utility = utility (player2 g),
           rr_next_round_switching_prob = p_current g\<rparr>]\<rparr>"

text \<open>Line 118: only the proposer's proposer strategy is told the outcome.\<close>

definition feedback :: "game \<Rightarrow> bool \<Rightarrow> real \<Rightarrow> error + game" where
  "feedback g acc x =
     (case receive_feedback (proposer_strategy (get_player g (proposer g))) acc x g of
        Inl e \<Rightarrow> Inl e
      | Inr ps \<Rightarrow> Inr (update_player (proposer g) (\<lambda>pl. pl\<lparr>proposer_strategy := ps\<rparr>) g))"

definition maybe_switch_roles :: "game \<Rightarrow> draws \<Rightarrow> game" where
  "maybe_switch_roles g d =
     (if u_switch d < p_current g
      then g\<lparr>proposer := receiver g, receiver := proposer g\<rparr>
      else g)"

definition play_round :: "game \<Rightarrow> draws \<Rightarrow> error + game" where
  "play_round g d =
     (case make_offer g (proposer g) d of
        Inl e \<Rightarrow> Inl e
      | Inr (x, g1) \<Rightarrow>
          (let g2 = notify_observer g1 x
           in case respond_to_offer g2 (receiver g2) x d of
                Inl e \<Rightarrow> Inl e
              | Inr (acc, g3) \<Rightarrow>
                  (let g4 = settle g3 x acc d;
                       g5 = append_history g4 x acc
                   in case feedback g5 acc x of
                        Inl e \<Rightarrow> Inl e
                      | Inr g6 \<Rightarrow> Inr (maybe_switch_roles g6 d))))"

text \<open>\<^verbatim>\<open>Game.run(n_rounds)\<close>: one element of the list of draws per round, so the length of
  the list is \<^verbatim>\<open>n_rounds\<close>. An exception raised inside a round ends the round and the run:
  the result is the exception alone, without the half-updated game.\<close>

fun run :: "game \<Rightarrow> draws list \<Rightarrow> error + game" where
  "run g [] = Inr g"
| "run g (d # ds) = (case play_round g d of Inl e \<Rightarrow> Inl e | Inr g' \<Rightarrow> run g' ds)"

section \<open>Auxiliary notions for the properties\<close>

text \<open>What one round adds to the utility of the proposer and of the receiver, as the two
  branches of \<open>settle\<close> compute it.\<close>

definition proposer_delta :: "game \<Rightarrow> real \<Rightarrow> bool \<Rightarrow> draws \<Rightarrow> real" where
  "proposer_delta g x acc d =
     (if acc then x
      else get_bad_utility g (proposer g) True
           + uniform (fst (proposer_random_penalty_range g))
               (snd (proposer_random_penalty_range g)) (u_proposer_penalty d))"

definition receiver_delta :: "game \<Rightarrow> real \<Rightarrow> bool \<Rightarrow> draws \<Rightarrow> real" where
  "receiver_delta g x acc d =
     (if acc then - x
      else get_bad_utility g (receiver g) False
           + uniform (fst (receiver_random_penalty_range g))
               (snd (receiver_random_penalty_range g)) (u_receiver_penalty d))"

text \<open>The invariant behind the bounds on \<open>p_current\<close>.\<close>

definition p_inv :: "game \<Rightarrow> bool" where
  "p_inv g \<longleftrightarrow>
     0 \<le> p_base g \<and> p_base g \<le> 1 \<and> 0 \<le> p_reject_bump g
     \<and> 0 \<le> p_current g \<and> p_current g \<le> 1
     \<and> (\<forall>r \<in> set (history g).
           0 \<le> rr_next_round_switching_prob r \<and> rr_next_round_switching_prob r \<le> 1)"

text \<open>The proposer strategies whose \<open>propose\<close> ends in the clamp
  \<^verbatim>\<open>max(game.min_offer, min(offer, game.max_offer))\<close>.\<close>

fun clamps_offers :: "proposer_strategy \<Rightarrow> bool" where
  "clamps_offers (ConcedingProposer current_offer decrement) = True"
| "clamps_offers (RandomProposer distribution mean stddev) = True"
| "clamps_offers (LearningProposer current_offer step_size) = True"
| "clamps_offers ps = False"

text \<open>The bracket \<open>(low, high)\<close> of a \<open>BinarySearchProposer\<close>.\<close>

fun bracket :: "proposer_strategy \<Rightarrow> (real \<times> real) option" where
  "bracket (BinarySearchProposer low high last_offer) = Some (low, high)"
| "bracket ps = None"

text \<open>The answers of one responder object to a sequence of offers, one \<open>respond\<close> call
  after the other, in one game and for one player.\<close>

fun respond_all ::
  "responder_strategy \<Rightarrow> real list \<Rightarrow> game \<Rightarrow> player_id \<Rightarrow> draws
     \<Rightarrow> error + (bool list \<times> responder_strategy)" where
  "respond_all rs [] g self_player d = Inr ([], rs)"
| "respond_all rs (x # xs) g self_player d =
     (case respond rs x g self_player d of
        Inl e \<Rightarrow> Inl e
      | Inr (acc, rs') \<Rightarrow>
          (case respond_all rs' xs g self_player d of
             Inl e \<Rightarrow> Inl e
           | Inr (accs, rs'') \<Rightarrow> Inr (acc # accs, rs'')))"

text \<open>
  Every \<open>TitForTatResponder\<close> whose \<open>last_offer\<close> is \<^verbatim>\<open>None\<close> replaced by a
  \<open>UtilitarianResponder\<close>, in a strategy object and in both players of a game.
\<close>

fun as_utilitarian :: "responder_strategy \<Rightarrow> responder_strategy" where
  "as_utilitarian (TitForTatResponder None) = UtilitarianResponder"
| "as_utilitarian rs = rs"

definition utilitarianised :: "game \<Rightarrow> game" where
  "utilitarianised g =
     g\<lparr>player1 := (player1 g)\<lparr>responder_strategy := as_utilitarian (responder_strategy (player1 g))\<rparr>,
       player2 := (player2 g)\<lparr>responder_strategy := as_utilitarian (responder_strategy (player2 g))\<rparr>\<rparr>"

subsection \<open>Concrete games\<close>

text \<open>
  The game of the specification's scenario, with the switch probability, the rejection bump
  and the start offer of both conceding proposers left open, and the draws of a round in
  which every \<^verbatim>\<open>random()\<close> returns 0. With the costs of the scenario an offer is accepted
  exactly when it is below 5.
\<close>

definition scenario_with :: "real \<Rightarrow> real \<Rightarrow> real \<Rightarrow> game" where
  "scenario_with pr bump start_offer =
     Game_init (Player_init ''Player 1'' (ConcedingProposer_init start_offer 10) UtilitarianResponder)
               (Player_init ''Player 2'' (ConcedingProposer_init start_offer 10) UtilitarianResponder)
               pr (-10) (-10) (-5) 5 False 0 100 False (0, 0) (0, 0) bump"

definition no_draws :: draws where
  "no_draws = \<lparr>u_propose = 0, z_propose = 0, u_respond = 0, u_proposer_penalty = 0,
                u_receiver_penalty = 0, u_switch = 0\<rparr>"

text \<open>The game after one accepted round (offer 3, no switch) and after one rejected round
  (offer 100, switch probability bumped from 1/2 to 1, roles switched).\<close>

definition after_accept :: game where
  "after_accept =
     (scenario_with 0 0 3)
       \<lparr>player1 := \<lparr>name = ''Player 1'', proposer_strategy = ConcedingProposer 3 10,
                     responder_strategy = UtilitarianResponder, utility = 3\<rparr>,
        player2 := \<lparr>name = ''Player 2'', proposer_strategy = ConcedingProposer 3 10,
                     responder_strategy = UtilitarianResponder, utility = -3\<rparr>,
        history := [\<lparr>rr_round = 1, rr_proposer = ''Player 1'', rr_offer = 3,
                     rr_accepted = True, rr_player1_utility = 3,
                     rr_player2_utility = -3, rr_next_round_switching_prob = 0\<rparr>]\<rparr>"

definition after_reject :: game where
  "after_reject =
     (scenario_with (1/2) 1 100)
       \<lparr>player1 := \<lparr>name = ''Player 1'', proposer_strategy = ConcedingProposer 90 10,
                     responder_strategy = UtilitarianResponder, utility = -15\<rparr>,
        player2 := \<lparr>name = ''Player 2'', proposer_strategy = ConcedingProposer 100 10,
                     responder_strategy = UtilitarianResponder, utility = -5\<rparr>,
        p_current := 1, proposer := Player2, receiver := Player1,
        history := [\<lparr>rr_round = 1, rr_proposer = ''Player 1'', rr_offer = 100,
                     rr_accepted = False, rr_player1_utility = -15,
                     rr_player2_utility = -5, rr_next_round_switching_prob = 1\<rparr>]\<rparr>"

text \<open>The scenario's costs with a chosen proposer strategy for both players and chosen offer
  bounds, and that game after one round of bisection on \<open>[0, 100]\<close> (offer 50, rejected).\<close>

definition bounds_game :: "proposer_strategy \<Rightarrow> real \<Rightarrow> real \<Rightarrow> game" where
  "bounds_game ps mn mx =
     Game_init (Player_init ''Player 1'' ps UtilitarianResponder)
               (Player_init ''Player 2'' ps UtilitarianResponder)
               0 (-10) (-10) (-5) 5 False mn mx False (0, 0) (0, 0) 0"

definition after_bisect :: game where
  "after_bisect =
     (bounds_game (BinarySearchProposer_init 0 100) 0 100)
       \<lparr>player1 := \<lparr>name = ''Player 1'', proposer_strategy = BinarySearchProposer 0 50 50,
                     responder_strategy = UtilitarianResponder, utility = -15\<rparr>,
        player2 := \<lparr>name = ''Player 2'', proposer_strategy = BinarySearchProposer 0 100 50,
                     responder_strategy = UtilitarianResponder, utility = -5\<rparr>,
        history := [\<lparr>rr_round = 1, rr_proposer = ''Player 1'', rr_offer = 50,
                     rr_accepted = False, rr_player1_utility = -15,
                     rr_player2_utility = -5, rr_next_round_switching_prob = 0\<rparr>]\<rparr>"

text \<open>A game in which rejecting costs the responder 95, both players responding with
  \<^verbatim>\<open>StrategicRejectorResponder(stagnation_tolerance=4, epsilon=1e-2, min_offer=0)\<close>.\<close>

definition costly_game :: game where
  "costly_game =
     Game_init (Player_init ''Player 1'' (ConcedingProposer_init 50 10)
                  (StrategicRejectorResponder_init 4 (1/100) 0))
               (Player_init ''Player 2'' (ConcedingProposer_init 50 10)
                  (StrategicRejectorResponder_init 4 (1/100) 0))
               0 (-100) (-100) (-5) 5 False 0 100 False (0, 0) (0, 0) 0"

text \<open>The scenario's costs with \<^verbatim>\<open>LearningProposer(start_offer=0, step_size=3)\<close> against
  \<^verbatim>\<open>TitForTatResponder()\<close>, and that game after two rounds (offers 0 and 3, both accepted).\<close>

definition ratchet_game :: game where
  "ratchet_game =
     Game_init (Player_init ''Player 1'' (LearningProposer_init 0 3) TitForTatResponder_init)
               (Player_init ''Player 2'' (LearningProposer_init 0 3) TitForTatResponder_init)
               0 (-10) (-10) (-5) 5 False 0 100 False (0, 0) (0, 0) 0"

definition after_ratchet :: game where
  "after_ratchet =
     ratchet_game
       \<lparr>player1 := \<lparr>name = ''Player 1'', proposer_strategy = LearningProposer 6 3,
                     responder_strategy = TitForTatResponder None, utility = 3\<rparr>,
        player2 := \<lparr>name = ''Player 2'', proposer_strategy = LearningProposer 0 3,
                     responder_strategy = TitForTatResponder None, utility = -3\<rparr>,
        history := [\<lparr>rr_round = 1, rr_proposer = ''Player 1'', rr_offer = 0,
                     rr_accepted = True, rr_player1_utility = 0,
                     rr_player2_utility = 0, rr_next_round_switching_prob = 0\<rparr>,
                    \<lparr>rr_round = 2, rr_proposer = ''Player 1'', rr_offer = 3,
                     rr_accepted = True, rr_player1_utility = 3,
                     rr_player2_utility = -3, rr_next_round_switching_prob = 0\<rparr>]\<rparr>"

section \<open>How the steps of a round act on the fields\<close>

lemmas engine_defs = make_offer_def respond_to_offer_def notify_observer_def add_utility_def
  settle_def append_history_def feedback_def maybe_switch_roles_def play_round_def
  get_player_def update_player_def get_bad_utility_def uniform_def clamp_offer_def

lemma get_update_player [simp]:
  "get_player (update_player i f g) j = (if j = i then f (get_player g i) else get_player g j)"
  by (cases i; cases j) (simp_all add: get_player_def update_player_def)

lemma update_player_fields [simp]:
  "p_base (update_player i f g) = p_base g"
  "p_current (update_player i f g) = p_current g"
  "p_reject_bump (update_player i f g) = p_reject_bump g"
  "p_reset_on_accept (update_player i f g) = p_reset_on_accept g"
  "player_1_bad (update_player i f g) = player_1_bad g"
  "player_2_bad (update_player i f g) = player_2_bad g"
  "proposer_bad (update_player i f g) = proposer_bad g"
  "receiver_bad (update_player i f g) = receiver_bad g"
  "proposer (update_player i f g) = proposer g"
  "receiver (update_player i f g) = receiver g"
  "history (update_player i f g) = history g"
  "min_offer (update_player i f g) = min_offer g"
  "max_offer (update_player i f g) = max_offer g"
  "proposer_random_penalty_range (update_player i f g) = proposer_random_penalty_range g"
  "receiver_random_penalty_range (update_player i f g) = receiver_random_penalty_range g"
  by (cases i; simp add: update_player_def)+

lemma get_player_field_updates [simp]:
  "get_player (g\<lparr>p_current := v\<rparr>) i = get_player g i"
  "get_player (g\<lparr>history := h\<rparr>) i = get_player g i"
  "get_player (g\<lparr>proposer := a, receiver := b\<rparr>) i = get_player g i"
  by (cases i; simp add: get_player_def)+

lemma player1_get: "player1 g = get_player g Player1" "player2 g = get_player g Player2"
  by (simp_all add: get_player_def)

lemma get_bad_utility_update_player [simp]:
  "get_bad_utility (update_player i f g) j b = get_bad_utility g j b"
  by (simp add: get_bad_utility_def)

lemma get_bad_utility_p_current [simp]:
  "get_bad_utility (g\<lparr>p_current := v\<rparr>) j b = get_bad_utility g j b"
  by (simp add: get_bad_utility_def)

text \<open>A round that returns has gone through every step; the intermediate games are named
  as in \<open>play_round\<close>.\<close>

lemma play_round_InrE:
  assumes "play_round g d = Inr g'"
  obtains x ps acc rs ps' g1 g2 g3 g5 where
    "propose (proposer_strategy (get_player g (proposer g))) g (proposer g) d = Inr (x, ps)"
    "g1 = update_player (proposer g) (\<lambda>pl. pl\<lparr>proposer_strategy := ps\<rparr>) g"
    "g2 = notify_observer g1 x"
    "respond (responder_strategy (get_player g2 (receiver g2))) x g2 (receiver g2) d = Inr (acc, rs)"
    "g3 = update_player (receiver g2) (\<lambda>pl. pl\<lparr>responder_strategy := rs\<rparr>) g2"
    "g5 = append_history (settle g3 x acc d) x acc"
    "receive_feedback (proposer_strategy (get_player g5 (proposer g5))) acc x g5 = Inr ps'"
    "g' = maybe_switch_roles (update_player (proposer g5) (\<lambda>pl. pl\<lparr>proposer_strategy := ps'\<rparr>) g5) d"
  using assms
  unfolding play_round_def make_offer_def respond_to_offer_def feedback_def Let_def
  by (auto split: sum.splits prod.splits)

lemma notify_observer_fields [simp]:
  "p_base (notify_observer g x) = p_base g"
  "p_current (notify_observer g x) = p_current g"
  "p_reject_bump (notify_observer g x) = p_reject_bump g"
  "p_reset_on_accept (notify_observer g x) = p_reset_on_accept g"
  "proposer (notify_observer g x) = proposer g"
  "receiver (notify_observer g x) = receiver g"
  "history (notify_observer g x) = history g"
  "min_offer (notify_observer g x) = min_offer g"
  "max_offer (notify_observer g x) = max_offer g"
  "utility (get_player (notify_observer g x) i) = utility (get_player g i)"
  "name (get_player (notify_observer g x) i) = name (get_player g i)"
  "responder_strategy (get_player (notify_observer g x) i) = responder_strategy (get_player g i)"
  "get_bad_utility (notify_observer g x) j b = get_bad_utility g j b"
  "proposer_random_penalty_range (notify_observer g x) = proposer_random_penalty_range g"
  "receiver_random_penalty_range (notify_observer g x) = receiver_random_penalty_range g"
  by (simp_all add: notify_observer_def)

lemma settle_fields [simp]:
  "p_base (settle g x acc d) = p_base g"
  "p_current (settle g x acc d) =
     (if acc then (if p_reset_on_accept g then p_base g else p_current g)
      else min 1 (p_current g + p_reject_bump g))"
  "p_reject_bump (settle g x acc d) = p_reject_bump g"
  "p_reset_on_accept (settle g x acc d) = p_reset_on_accept g"
  "proposer (settle g x acc d) = proposer g"
  "receiver (settle g x acc d) = receiver g"
  "history (settle g x acc d) = history g"
  "min_offer (settle g x acc d) = min_offer g"
  "max_offer (settle g x acc d) = max_offer g"
  "name (get_player (settle g x acc d) i) = name (get_player g i)"
  "proposer_strategy (get_player (settle g x acc d) i) = proposer_strategy (get_player g i)"
  "responder_strategy (get_player (settle g x acc d) i) = responder_strategy (get_player g i)"
  by (simp_all add: settle_def add_utility_def Let_def)

lemma settle_utility [simp]:
  "utility (get_player (settle g x acc d) i) =
     utility (get_player g i)
     + (if i = proposer g then proposer_delta g x acc d else 0)
     + (if i = receiver g then receiver_delta g x acc d else 0)"
  by (simp add: settle_def add_utility_def Let_def proposer_delta_def receiver_delta_def)

lemma append_history_fields [simp]:
  "p_base (append_history g x acc) = p_base g"
  "p_current (append_history g x acc) = p_current g"
  "p_reject_bump (append_history g x acc) = p_reject_bump g"
  "p_reset_on_accept (append_history g x acc) = p_reset_on_accept g"
  "proposer (append_history g x acc) = proposer g"
  "receiver (append_history g x acc) = receiver g"
  "min_offer (append_history g x acc) = min_offer g"
  "max_offer (append_history g x acc) = max_offer g"
  "get_player (append_history g x acc) i = get_player g i"
  "history (append_history g x acc) = history g @
     [\<lparr>rr_round = length (history g) + 1,
       rr_proposer = name (get_player g (proposer g)),
       rr_offer = x, rr_accepted = acc,
       rr_player1_utility = utility (get_player g Player1),
       rr_player2_utility = utility (get_player g Player2),
       rr_next_round_switching_prob = p_current g\<rparr>]"
  by (simp_all add: append_history_def player1_get)

lemma maybe_switch_roles_fields [simp]:
  "p_base (maybe_switch_roles g d) = p_base g"
  "p_current (maybe_switch_roles g d) = p_current g"
  "p_reject_bump (maybe_switch_roles g d) = p_reject_bump g"
  "p_reset_on_accept (maybe_switch_roles g d) = p_reset_on_accept g"
  "proposer (maybe_switch_roles g d) = (if u_switch d < p_current g then receiver g else proposer g)"
  "receiver (maybe_switch_roles g d) = (if u_switch d < p_current g then proposer g else receiver g)"
  "min_offer (maybe_switch_roles g d) = min_offer g"
  "max_offer (maybe_switch_roles g d) = max_offer g"
  "get_player (maybe_switch_roles g d) i = get_player g i"
  "history (maybe_switch_roles g d) = history g"
  by (simp_all add: maybe_switch_roles_def)

section \<open>The one-round scenario\<close>

text \<open>
  Claim C1. The game \<^verbatim>\<open>Game(p=0, player_1_bad=-10, player_2_bad=-10, proposer_bad=-5,
  receiver_bad=5, min_offer=0, max_offer=100)\<close>, player 1 proposing with
  \<^verbatim>\<open>ConcedingProposer(start_offer=100, decrement=10)\<close> and player 2 responding with
  \<^verbatim>\<open>UtilitarianResponder\<close>, run for one round: the run returns, the offer is rejected,
  player 1 ends at -15 and player 2 at -5, and the history holds the single record with
  round 1, accepted false and the two utilities -15 and -5. This holds whatever the other
  two strategy objects, the names, the flags and the random draws are.
\<close>

theorem scenario_one_round_rejection:
  "\<exists>g'. run (Game_init (Player_init n1 (ConcedingProposer_init 100 10) rs1)
                 (Player_init n2 ps2 UtilitarianResponder)
                 0 (-10) (-10) (-5) 5 verb 0 100 plt (0, 0) (0, 0) 0) [d] = Inr g'
     \<and> utility (player1 g') = -15 \<and> utility (player2 g') = -5
     \<and> length (history g') = 1
     \<and> rr_round (hd (history g')) = 1 \<and> \<not> rr_accepted (hd (history g'))
     \<and> rr_offer (hd (history g')) = 100
     \<and> rr_player1_utility (hd (history g')) = -15
     \<and> rr_player2_utility (hd (history g')) = -5"
  by (cases ps2)
     (simp_all add: engine_defs Game_init_def Player_init_def ConcedingProposer_init_def Let_def)

section \<open>Rounds and runs\<close>

lemma run_invariant:
  assumes "I g" and "run g ds = Inr g'"
    and step: "\<And>g d g'. I g \<Longrightarrow> play_round g d = Inr g' \<Longrightarrow> I g'"
  shows "I g'"
  using assms(1,2)
proof (induction ds arbitrary: g)
  case Nil
  then show ?case by simp
next
  case (Cons d ds)
  then show ?case by (auto split: sum.splits dest: step)
qed




lemma play_round_history:
  assumes "play_round g d = Inr g'"
  shows "history g' = history g @ [last (history g')]"
  using assms by (elim play_round_InrE) simp


lemma play_round_p_current:
  assumes "play_round g d = Inr g'"
  shows "p_current g' =
           (if rr_accepted (last (history g'))
            then (if p_reset_on_accept g then p_base g else p_current g)
            else min 1 (p_current g + p_reject_bump g))"
    and "rr_next_round_switching_prob (last (history g')) = p_current g'"
    and "rr_round (last (history g')) = length (history g) + 1"
    and "proposer g' = (if u_switch d < p_current g' then receiver g else proposer g)"
    and "receiver g' = (if u_switch d < p_current g' then proposer g else receiver g)"
    and "p_base g' = p_base g" and "p_reject_bump g' = p_reject_bump g"
    and "p_reset_on_accept g' = p_reset_on_accept g"
  using assms by (elim play_round_InrE; simp)+

lemmas scenario_defs = scenario_with_def no_draws_def engine_defs Game_init_def Player_init_def
  ConcedingProposer_init_def Let_def

lemma scenario_accepted_round:
  "play_round (scenario_with 0 0 3) no_draws = Inr after_accept"
  by (simp add: after_accept_def scenario_defs)

lemma scenario_rejected_round:
  "play_round (scenario_with (1/2) 1 100) no_draws = Inr after_reject"
  by (simp add: after_reject_def scenario_defs)

section \<open>Utilities\<close>



section \<open>The switch probability\<close>

lemma play_round_p_inv:
  assumes "p_inv g" "play_round g d = Inr g'"
  shows "p_inv g'"
proof -
  have h: "history g' = history g @ [last (history g')]"
    using play_round_history [OF assms(2)] .
  have c: "0 \<le> p_current g' \<and> p_current g' \<le> 1"
    using assms(1) play_round_p_current(1) [OF assms(2)]
    by (auto simp: p_inv_def min_def)
  have "set (history g') = insert (last (history g')) (set (history g))"
    using arg_cong [OF h, of set] by simp
  then show ?thesis
    using assms(1) c play_round_p_current(2,6,7) [OF assms(2)]
    by (simp add: p_inv_def)
qed

text \<open>
  Claim C3, as amended. For every game configured with \<open>0 \<le> p \<le> 1\<close> and
  \<open>p_reject_bump \<ge> 0\<close>, after every round (accepted or rejected) \<open>p_current\<close> lies in
  \<open>[0, 1]\<close>, and so does the value every round record stores. The engine checks neither
  parameter: only the rejection branch caps the value at 1.
\<close>

theorem p_current_stays_in_unit_interval:
  assumes "0 \<le> pr" "pr \<le> 1" "0 \<le> bump"
    and "run (Game_init pl1 pl2 pr b1 b2 pb rb verb mn mx plt prange rrange bump) ds = Inr g"
  shows "0 \<le> p_current g \<and> p_current g \<le> 1
     \<and> (\<forall>r \<in> set (history g).
           0 \<le> rr_next_round_switching_prob r \<and> rr_next_round_switching_prob r \<le> 1)"
proof -
  have "p_inv (Game_init pl1 pl2 pr b1 b2 pb rb verb mn mx plt prange rrange bump)"
    using assms(1-3) by (simp add: p_inv_def Game_init_def)
  then have "p_inv g"
    by (rule run_invariant [OF _ assms(4)]) (rule play_round_p_inv)
  then show ?thesis by (simp add: p_inv_def)
qed

theorem p_current_stays_in_unit_interval_witness:
  "(0::real) \<le> 1/2 \<and> (1/2::real) \<le> 1 \<and> (0::real) \<le> 1
   \<and> run (scenario_with (1/2) 1 100) [no_draws] = Inr after_reject
   \<and> 0 \<le> p_current after_reject \<and> p_current after_reject \<le> 1
   \<and> 0 \<le> rr_next_round_switching_prob (last (history after_reject))
   \<and> rr_next_round_switching_prob (last (history after_reject)) \<le> 1"
proof -
  have r: "run (scenario_with (1/2) 1 100) [no_draws] = Inr after_reject"
    using scenario_rejected_round by simp
  have h: "last (history after_reject) \<in> set (history after_reject)"
    by (simp add: after_reject_def)
  show ?thesis
    using r h p_current_stays_in_unit_interval [OF _ _ _ r [unfolded scenario_with_def]]
    by simp
qed

text \<open>
  The claim as stated, for any configured \<open>p_base\<close> and \<open>p_reject_bump\<close>, fails: with
  \<open>p = 2\<close> an accepted round resets \<open>p_current\<close> to 2, and with \<open>p = 1/2\<close> and
  \<open>p_reject_bump = -1\<close> a rejected round leaves \<open>p_current\<close> at \<open>-1/2\<close>.
\<close>

theorem p_current_leaves_unit_interval:
  "map_sum id p_current (play_round (scenario_with 2 0 3) no_draws) = Inr 2
   \<and> \<not> (2::real) \<le> 1
   \<and> map_sum id p_current (play_round (scenario_with (1/2) (-1) 100) no_draws) = Inr (- 1/2)
   \<and> \<not> (0::real) \<le> - 1/2"
  by (simp add: scenario_defs)

text \<open>
  Claim C9. In every round that returns: the round appends one record; if the responder
  accepts, \<open>p_current\<close> is \<open>p_base\<close> when \<open>p_reset_on_accept\<close> is set (\<open>Game_init\<close> sets it)
  and is unchanged otherwise; if the responder rejects, \<open>p_current\<close> is
  \<open>min 1 (p_current + p_reject_bump)\<close>; the appended record stores this updated value, and
  it is the value the role-switch draw at the end of the round is compared with, which
  decides the roles of the next round.
\<close>

theorem round_updates_switch_probability:
  assumes "play_round g d = Inr g'"
  shows "history g' = history g @ [last (history g')]
     \<and> (rr_accepted (last (history g')) \<longrightarrow>
          p_current g' = (if p_reset_on_accept g then p_base g else p_current g))
     \<and> (\<not> rr_accepted (last (history g')) \<longrightarrow>
          p_current g' = min 1 (p_current g + p_reject_bump g))
     \<and> rr_next_round_switching_prob (last (history g')) = p_current g'
     \<and> proposer g' =
         (if u_switch d < rr_next_round_switching_prob (last (history g'))
          then receiver g else proposer g)
     \<and> receiver g' =
         (if u_switch d < rr_next_round_switching_prob (last (history g'))
          then proposer g else receiver g)"
  using play_round_history [OF assms] play_round_p_current(1,2,4,5) [OF assms]
  by simp

theorem round_updates_switch_probability_witness:
  "play_round (scenario_with (1/2) 1 100) no_draws = Inr after_reject
   \<and> \<not> rr_accepted (last (history after_reject))
   \<and> p_current after_reject = min 1 (p_current (scenario_with (1/2) 1 100)
                                      + p_reject_bump (scenario_with (1/2) 1 100))
   \<and> rr_next_round_switching_prob (last (history after_reject)) = 1
   \<and> proposer after_reject = receiver (scenario_with (1/2) 1 100)
   \<and> play_round (scenario_with 0 0 3) no_draws = Inr after_accept
   \<and> rr_accepted (last (history after_accept))
   \<and> p_current after_accept = p_base (scenario_with 0 0 3)"
proof -
  have rej: "\<not> rr_accepted (last (history after_reject))" "p_current after_reject = 1"
    "u_switch no_draws < 1"
    by (simp_all add: after_reject_def no_draws_def)
  have acc: "rr_accepted (last (history after_accept))"
    "p_reset_on_accept (scenario_with 0 0 3)"
    by (simp_all add: after_accept_def scenario_with_def Game_init_def)
  show ?thesis
    using round_updates_switch_probability [OF scenario_rejected_round]
          round_updates_switch_probability [OF scenario_accepted_round]
          scenario_rejected_round scenario_accepted_round rej acc
    by simp
qed

section \<open>Offers and the offer bounds\<close>

lemma propose_clamps:
  assumes "clamps_offers ps" "propose ps g sp d = Inr (x, ps')"
  shows "min_offer g \<le> x \<and> (min_offer g \<le> max_offer g \<longrightarrow> x \<le> max_offer g)"
  using assms
  by (cases ps) (auto simp: clamp_offer_def split: if_splits option.splits)

lemma play_round_offer:
  assumes "play_round g d = Inr g'"
  shows "\<exists>ps. propose (proposer_strategy (get_player g (proposer g))) g (proposer g) d
           = Inr (rr_offer (last (history g')), ps)"
  using assms by (elim play_round_InrE) simp

lemma notify_observer_proposer_strategy [simp]:
  "proposer_strategy (get_player (notify_observer g x) i) =
     (if i = receiver g then observe_offer_from_opponent (proposer_strategy (get_player g i)) x
      else proposer_strategy (get_player g i))"
  by (cases "proposer_strategy (get_player g (receiver g))") (simp_all add: notify_observer_def)

lemma bracket_observe [simp]: "bracket (observe_offer_from_opponent ps x) = bracket ps"
  by (cases ps) simp_all

lemma bracket_SomeD: "bracket ps = Some (low, high) \<Longrightarrow> \<exists>lst. ps = BinarySearchProposer low high lst"
  by (cases ps) simp_all

lemma play_round_proposer_strategy:
  assumes "play_round g d = Inr g'"
  obtains x ps acc g5 ps' where
    "propose (proposer_strategy (get_player g (proposer g))) g (proposer g) d = Inr (x, ps)"
    "receive_feedback
       (if proposer g = receiver g then observe_offer_from_opponent ps x else ps) acc x g5
     = Inr ps'"
    "\<forall>i. proposer_strategy (get_player g' i) =
       (if i = proposer g then ps'
        else if i = receiver g
        then observe_offer_from_opponent (proposer_strategy (get_player g i)) x
        else proposer_strategy (get_player g i))"
proof -
  from assms obtain x ps acc rs ps' g1 g2 g3 g5 where
    pr: "propose (proposer_strategy (get_player g (proposer g))) g (proposer g) d = Inr (x, ps)"
    and g1: "g1 = update_player (proposer g) (\<lambda>pl. pl\<lparr>proposer_strategy := ps\<rparr>) g"
    and g2: "g2 = notify_observer g1 x"
    and g3: "g3 = update_player (receiver g2) (\<lambda>pl. pl\<lparr>responder_strategy := rs\<rparr>) g2"
    and g5: "g5 = append_history (settle g3 x acc d) x acc"
    and fb: "receive_feedback (proposer_strategy (get_player g5 (proposer g5))) acc x g5 = Inr ps'"
    and g': "g' = maybe_switch_roles
                    (update_player (proposer g5) (\<lambda>pl. pl\<lparr>proposer_strategy := ps'\<rparr>) g5) d"
    by (rule play_round_InrE)
  have s1: "proposer_strategy (get_player g1 i) =
              (if i = proposer g then ps else proposer_strategy (get_player g i))" for i
    by (simp add: g1)
  have r1: "proposer g1 = proposer g" "receiver g1 = receiver g"
    by (simp_all add: g1)
  have s2: "proposer_strategy (get_player g2 i) =
              (if i = receiver g then observe_offer_from_opponent (proposer_strategy (get_player g1 i)) x
               else proposer_strategy (get_player g1 i))" for i
    by (simp add: g2 r1)
  have r2: "proposer g2 = proposer g" "receiver g2 = receiver g"
    by (simp_all add: g2 r1)
  have s3: "proposer_strategy (get_player g3 i) = proposer_strategy (get_player g2 i)" for i
    by (simp add: g3)
  have r3: "proposer g3 = proposer g" "receiver g3 = receiver g"
    by (simp_all add: g3 r2)
  have s5: "proposer_strategy (get_player g5 i) = proposer_strategy (get_player g3 i)" for i
    by (simp add: g5)
  have r5: "proposer g5 = proposer g"
    by (simp add: g5 r3)
  have s': "proposer_strategy (get_player g' i) =
              (if i = proposer g then ps' else proposer_strategy (get_player g5 i))" for i
    by (simp add: g' r5)
  have fb': "receive_feedback
       (if proposer g = receiver g then observe_offer_from_opponent ps x else ps) acc x g5
     = Inr ps'"
    using fb by (simp add: r5 s5 s3 s2 s1 cong: if_cong)
  have all: "\<forall>i. proposer_strategy (get_player g' i) =
       (if i = proposer g then ps'
        else if i = receiver g
        then observe_offer_from_opponent (proposer_strategy (get_player g i)) x
        else proposer_strategy (get_player g i))"
    by (simp add: s' s5 s3 s2 s1)
  show thesis
    using that [OF pr fb' all] .
qed

lemma play_round_bracket:
  assumes "play_round g d = Inr g'"
    and "bracket (proposer_strategy (get_player g i)) = Some (low, high)"
  shows "\<exists>low' high'. bracket (proposer_strategy (get_player g' i)) = Some (low', high')
           \<and> low \<le> low' \<and> high' \<le> high \<and> (low \<le> high \<longrightarrow> low' \<le> high')"
proof -
  from assms(1) obtain x ps acc g5 ps' where
    pr: "propose (proposer_strategy (get_player g (proposer g))) g (proposer g) d = Inr (x, ps)"
    and fb: "receive_feedback
       (if proposer g = receiver g then observe_offer_from_opponent ps x else ps) acc x g5
     = Inr ps'"
    and st0: "\<forall>i. proposer_strategy (get_player g' i) =
       (if i = proposer g then ps'
        else if i = receiver g
        then observe_offer_from_opponent (proposer_strategy (get_player g i)) x
        else proposer_strategy (get_player g i))"
    by (rule play_round_proposer_strategy)
  note st = st0 [rule_format]
  show ?thesis
  proof (cases "i = proposer g")
    case False
    then show ?thesis using assms(2) by (auto simp: st)
  next
    case True
    obtain lst where ps0: "proposer_strategy (get_player g (proposer g)) = BinarySearchProposer low high lst"
      using bracket_SomeD [OF assms(2)] True by auto
    have ps: "x = (low + high) / 2" "ps = BinarySearchProposer low high ((low + high) / 2)"
      using pr by (auto simp: ps0)
    have "ps' = (if acc then BinarySearchProposer (max low x) high x
                 else BinarySearchProposer low (min high x) x)"
      using fb by (simp add: ps split: if_splits)
    then show ?thesis
      using True by (auto simp: st ps)
  qed
qed

text \<open>
  Claim C4, as amended. In every round of a game with \<open>min_offer \<le> max_offer\<close> in which the
  proposer plays a strategy that clamps (\<open>ConcedingProposer\<close>, \<open>RandomProposer\<close>,
  \<open>LearningProposer\<close>), the offer the engine receives and records satisfies
  \<open>min_offer \<le> offer \<le> max_offer\<close>. The engine records the very offer the strategy returned:
  it clamps nothing itself.
\<close>

theorem clamping_strategies_offer_within_bounds:
  assumes "play_round g d = Inr g'"
    and "clamps_offers (proposer_strategy (get_player g (proposer g)))"
    and "min_offer g \<le> max_offer g"
  shows "min_offer g \<le> rr_offer (last (history g'))
     \<and> rr_offer (last (history g')) \<le> max_offer g
     \<and> (\<exists>ps. propose (proposer_strategy (get_player g (proposer g))) g (proposer g) d
               = Inr (rr_offer (last (history g')), ps))"
proof -
  obtain ps where pr: "propose (proposer_strategy (get_player g (proposer g))) g (proposer g) d
           = Inr (rr_offer (last (history g')), ps)"
    using play_round_offer [OF assms(1)] by blast
  show ?thesis
    using propose_clamps [OF assms(2) pr] assms(3) pr by blast
qed


theorem clamping_strategies_offer_within_bounds_witness:
  "play_round (scenario_with 0 0 3) no_draws = Inr after_accept
   \<and> clamps_offers (proposer_strategy (get_player (scenario_with 0 0 3) (proposer (scenario_with 0 0 3))))
   \<and> min_offer (scenario_with 0 0 3) \<le> max_offer (scenario_with 0 0 3)
   \<and> rr_offer (last (history after_accept)) = 3
   \<and> min_offer (scenario_with 0 0 3) \<le> rr_offer (last (history after_accept))
   \<and> rr_offer (last (history after_accept)) \<le> max_offer (scenario_with 0 0 3)"
proof -
  have c: "clamps_offers (proposer_strategy (get_player (scenario_with 0 0 3) (proposer (scenario_with 0 0 3))))"
    and b: "min_offer (scenario_with 0 0 3) \<le> max_offer (scenario_with 0 0 3)"
    by (simp_all add: scenario_with_def Game_init_def Player_init_def ConcedingProposer_init_def
          get_player_def)
  have o: "rr_offer (last (history after_accept)) = 3"
    by (simp add: after_accept_def)
  show ?thesis
    using clamping_strategies_offer_within_bounds [OF scenario_accepted_round c b]
          scenario_accepted_round c b o
    by simp
qed


text \<open>
  The claim as stated, for every proposer strategy, fails: \<open>TitForTatProposer\<close> opens with
  offer 0 whatever \<open>min_offer\<close> is (here 10), \<open>RiskAwareProposer\<close> picks 100 from its own
  grid whatever \<open>max_offer\<close> is (here 50), and the engine records both unchanged. With
  \<open>min_offer > max_offer\<close> even a clamped offer exceeds \<open>max_offer\<close>.
\<close>

theorem offer_outside_bounds:
  "map_sum id (rr_offer \<circ> last \<circ> history)
     (play_round (bounds_game TitForTatProposer_init 10 100) no_draws) = Inr 0
   \<and> \<not> (10::real) \<le> 0
   \<and> map_sum id (rr_offer \<circ> last \<circ> history)
     (play_round (bounds_game (RiskAwareProposer_init None) 0 50) no_draws) = Inr 100
   \<and> \<not> (100::real) \<le> 50
   \<and> map_sum id (rr_offer \<circ> last \<circ> history)
     (play_round (bounds_game (ConcedingProposer_init 3 10) 10 5) no_draws) = Inr 10
   \<and> \<not> (10::real) \<le> 5"
  by (simp add: bounds_game_def scenario_defs TitForTatProposer_init_def RiskAwareProposer_init_def
        offer_levels_or_default_def default_offer_levels_def fresh_stats_def exceeds_def)


section \<open>Failures of the random proposer\<close>

text \<open>
  Claim C6. \<open>RandomProposer.propose\<close> fails when the distribution is \<^verbatim>\<open>"normal"\<close> and mean or
  stddev is absent (the \<^verbatim>\<open>assert\<close> fails: \<open>AssertionError\<close>), and fails when the
  distribution name is neither \<^verbatim>\<open>"uniform"\<close> nor \<^verbatim>\<open>"normal"\<close> (\<open>ValueError\<close>); these two
  failures are what the specification calls a ConfigurationError. The constructor accepts
  any arguments, so the failure arises at the call of \<open>propose\<close>; every other configuration
  returns an offer; and \<open>play_round\<close> passes the failure on to its caller.
\<close>

theorem random_proposer_configuration_errors:
  "((mean = None \<or> stddev = None) \<longrightarrow>
      propose (RandomProposer_init ''normal'' mean stddev) g self_player d
        = Inl (AssertionError ''Normal distribution requires mean and stddev''))
   \<and> (distribution \<noteq> ''uniform'' \<and> distribution \<noteq> ''normal'' \<longrightarrow>
      propose (RandomProposer_init distribution mean stddev) g self_player d
        = Inl (ValueError (''Unknown distribution: '' @ distribution)))
   \<and> (distribution = ''uniform'' \<or> (distribution = ''normal'' \<and> mean \<noteq> None \<and> stddev \<noteq> None) \<longrightarrow>
      (\<exists>x. propose (RandomProposer_init distribution mean stddev) g self_player d
        = Inr (x, RandomProposer_init distribution mean stddev)))
   \<and> (proposer_strategy (get_player g (proposer g)) = RandomProposer_init distribution mean stddev
      \<and> propose (RandomProposer_init distribution mean stddev) g (proposer g) d = Inl e \<longrightarrow>
      play_round g d = Inl e)"
  by (cases mean; cases stddev)
     (auto simp: RandomProposer_init_def play_round_def make_offer_def)


theorem random_proposer_configuration_errors_witness:
  "propose (RandomProposer_init ''normal'' None (Some 1)) (scenario_with 0 0 3) Player1 no_draws
     = Inl (AssertionError ''Normal distribution requires mean and stddev'')
   \<and> ''gamma'' \<noteq> ''uniform'' \<and> ''gamma'' \<noteq> ''normal''
   \<and> propose (RandomProposer_init ''gamma'' None None) (scenario_with 0 0 3) Player1 no_draws
     = Inl (ValueError ''Unknown distribution: gamma'')
   \<and> propose (RandomProposer_init ''uniform'' None None) (scenario_with 0 0 3) Player1 no_draws
     = Inr (0, RandomProposer_init ''uniform'' None None)
   \<and> play_round (bounds_game (RandomProposer_init ''gamma'' None None) 0 100) no_draws
     = Inl (ValueError ''Unknown distribution: gamma'')"
proof -
  note a = random_proposer_configuration_errors
             [of None "Some 1" "scenario_with 0 0 3" Player1 no_draws "''gamma''"]
  note b = random_proposer_configuration_errors
             [of None None "scenario_with 0 0 3" Player1 no_draws "''gamma''"]
  note c = random_proposer_configuration_errors
             [of None None "bounds_game (RandomProposer_init ''gamma'' None None) 0 100"
                 Player1 no_draws "''gamma''" "ValueError ''Unknown distribution: gamma''"]
  have u: "propose (RandomProposer_init ''uniform'' None None) (scenario_with 0 0 3) Player1 no_draws
     = Inr (0, RandomProposer_init ''uniform'' None None)"
    by (simp add: RandomProposer_init_def scenario_defs)
  have s: "proposer_strategy (get_player (bounds_game (RandomProposer_init ''gamma'' None None) 0 100)
             (proposer (bounds_game (RandomProposer_init ''gamma'' None None) 0 100)))
           = RandomProposer_init ''gamma'' None None"
     "proposer (bounds_game (RandomProposer_init ''gamma'' None None) 0 100) = Player1"
    by (simp_all add: bounds_game_def Game_init_def Player_init_def get_player_def)
  show ?thesis
    using a b c u s by simp
qed


section \<open>The bracket of the binary search\<close>

lemma bisect_round:
  "play_round (bounds_game (BinarySearchProposer_init 0 100) 0 100) no_draws = Inr after_bisect"
  by (simp add: after_bisect_def bounds_game_def BinarySearchProposer_init_def scenario_defs)

text \<open>
  Claim C8, as amended. A player's \<open>BinarySearchProposer\<close> driven by the engine for any
  number of rounds (in a round the player proposes, the engine calls \<open>propose\<close> and then
  \<open>receive_feedback\<close> with that same offer; in any other round the bracket is untouched):
  the width \<open>high - low\<close> after a round is at most the width before it, whatever the
  constructor arguments were; and if the proposer was constructed with
  \<open>min_offer \<le> max_offer\<close>, its bracket satisfies \<open>low \<le> high\<close> before and after every round,
  hence after every \<open>receive_feedback\<close> call.
\<close>

theorem binary_search_bracket_invariant:
  assumes "proposer_strategy (get_player g0 i) = BinarySearchProposer_init mn mx"
    and "run g0 ds = Inr g" and "play_round g d = Inr g'"
  shows "\<exists>low high low' high'.
           bracket (proposer_strategy (get_player g i)) = Some (low, high)
         \<and> bracket (proposer_strategy (get_player g' i)) = Some (low', high')
         \<and> high' - low' \<le> high - low
         \<and> (mn \<le> mx \<longrightarrow> low \<le> high \<and> low' \<le> high')"
proof -
  let ?I = "\<lambda>g. \<exists>low high. bracket (proposer_strategy (get_player g i)) = Some (low, high)
                    \<and> (mn \<le> mx \<longrightarrow> low \<le> high)"
  have "?I g0"
    using assms(1) by (simp add: BinarySearchProposer_init_def)
  then have "?I g"
  proof (rule run_invariant [OF _ assms(2)])
    fix h d h'
    assume "?I h" "play_round h d = Inr h'"
    then show "?I h'"
      using play_round_bracket [of h d h' i] by blast
  qed
  then obtain low high where
    b: "bracket (proposer_strategy (get_player g i)) = Some (low, high)"
       "mn \<le> mx \<longrightarrow> low \<le> high"
    by blast
  obtain low' high' where
    b': "bracket (proposer_strategy (get_player g' i)) = Some (low', high')"
        "low \<le> low'" "high' \<le> high" "low \<le> high \<longrightarrow> low' \<le> high'"
    using play_round_bracket [OF assms(3) b(1)] by blast
  have "high' - low' \<le> high - low"
    using b'(2,3) by simp
  then show ?thesis
    using b b' by blast
qed


theorem binary_search_bracket_invariant_witness:
  "proposer_strategy (get_player (bounds_game (BinarySearchProposer_init 0 100) 0 100) Player1)
       = BinarySearchProposer_init 0 100
   \<and> run (bounds_game (BinarySearchProposer_init 0 100) 0 100) []
       = Inr (bounds_game (BinarySearchProposer_init 0 100) 0 100)
   \<and> play_round (bounds_game (BinarySearchProposer_init 0 100) 0 100) no_draws = Inr after_bisect
   \<and> bracket (proposer_strategy (get_player (bounds_game (BinarySearchProposer_init 0 100) 0 100) Player1))
       = Some (0, 100)
   \<and> bracket (proposer_strategy (get_player after_bisect Player1)) = Some (0, 50)
   \<and> (50::real) - 0 \<le> 100 - 0
   \<and> (0::real) \<le> 100 \<and> (0::real) \<le> 50"
proof -
  have s: "proposer_strategy (get_player (bounds_game (BinarySearchProposer_init 0 100) 0 100) Player1)
       = BinarySearchProposer_init 0 100"
    by (simp add: bounds_game_def Game_init_def Player_init_def get_player_def)
  have r: "run (bounds_game (BinarySearchProposer_init 0 100) 0 100) []
       = Inr (bounds_game (BinarySearchProposer_init 0 100) 0 100)"
    by simp
  have b: "bracket (proposer_strategy (get_player after_bisect Player1)) = Some (0, 50)"
    by (simp add: after_bisect_def get_player_def)
  show ?thesis
    using binary_search_bracket_invariant [OF s r bisect_round] s r b bisect_round
    by (simp add: BinarySearchProposer_init_def)
qed

text \<open>
  The claim as stated, for any \<open>BinarySearchProposer\<close>, fails: the constructor accepts
  \<^verbatim>\<open>BinarySearchProposer(100, 0)\<close>, and after a round (offer 50, rejected) the bracket is
  still \<open>(100, 0)\<close>, so \<open>low \<le> high\<close> does not hold after the feedback call.
\<close>

theorem binary_search_bracket_inverted:
  "map_sum id (bracket \<circ> proposer_strategy \<circ> player1)
     (play_round (bounds_game (BinarySearchProposer_init 100 0) 0 100) no_draws)
     = Inr (Some (100, 0))
   \<and> \<not> (100::real) \<le> 0"
  by (simp add: bounds_game_def BinarySearchProposer_init_def scenario_defs)

section \<open>The strategic rejector\<close>

lemma strategic_repeat:
  assumes "0 \<le> eps" "mn + eps < x" "get_bad_utility g sp False \<le> - x"
  shows "respond_all (StrategicRejectorResponder tol eps (Some x) k mn) (replicate n x) g sp d
         = Inr (map (\<lambda>j. k + 1 + int j < tol) [0..<n],
                StrategicRejectorResponder tol eps (Some x) (k + int n) mn)"
proof (induction n arbitrary: k)
  case 0
  show ?case by simp
next
  case (Suc n)
  have step: "respond (StrategicRejectorResponder tol eps (Some x) k mn) x g sp d
              = Inr (k + 1 < tol, StrategicRejectorResponder tol eps (Some x) (k + 1) mn)"
    using assms by (simp add: Let_def)
  have shift: "map (\<lambda>j. k + 1 + int j < tol) [0..<Suc n]
               = (k + 1 < tol) # map (\<lambda>j. k + 1 + 1 + int j < tol) [0..<n]"
    by (simp add: map_upt_Suc del: upt_Suc) (simp add: add.commute add.left_commute)
  show ?case
    using Suc.IH [of "k + 1"] step shift
    by (simp del: upt_Suc respond.simps)
qed

lemma strategic_first:
  assumes "mn + eps < x" "get_bad_utility g sp False \<le> - x"
  shows "respond (StrategicRejectorResponder_init tol eps mn) x g sp d
         = Inr (True, StrategicRejectorResponder tol eps (Some x) 0 mn)"
  using assms by (simp add: StrategicRejectorResponder_init_def Let_def)

text \<open>
  Claim C7, as amended. A \<open>StrategicRejectorResponder\<close> with \<open>stagnation_tolerance = 4\<close> and
  \<open>epsilon \<ge> 0\<close>, facing the same offer \<open>x\<close> again and again (strictly above the floor plus
  epsilon, and no worse than rejecting): the \<open>j\<close>-th answer, counted from 0, is an
  acceptance exactly when \<open>j < 4\<close>, so the first 4 offers are accepted and the 5th and every
  later one rejected. To an offer \<open>y\<close> that follows five or more such offers it answers, in
  this order: if \<open>y\<close> is worse than rejecting, it rejects and keeps streak and previous
  offer; otherwise, if \<open>y\<close> is at most the floor plus epsilon, it accepts and keeps streak
  and previous offer; otherwise, if \<open>y\<close> is lower than \<open>x\<close> by more than epsilon, it resets
  the streak to 0 and accepts; otherwise (\<open>y\<close> raised, equal, or lower by at most epsilon)
  it extends the streak by one and rejects. So the streak resets exactly when the new
  offer is no worse than rejecting, above the floor plus epsilon, and lower than the
  previous offer by more than epsilon.
\<close>

theorem strategic_rejector_punishes_stagnation:
  assumes "0 \<le> eps" "mn + eps < x" "get_bad_utility g sp False \<le> - x"
  shows "respond_all (StrategicRejectorResponder_init 4 eps mn) (replicate (Suc n) x) g sp d
           = Inr (map (\<lambda>j. j < 4) [0..<Suc n],
                  StrategicRejectorResponder 4 eps (Some x) (int n) mn)
     \<and> respond_all (StrategicRejectorResponder_init 4 eps mn) (replicate 5 x) g sp d
           = Inr ([True, True, True, True, False],
                  StrategicRejectorResponder 4 eps (Some x) 4 mn)
     \<and> (4 \<le> m \<longrightarrow>
          respond (StrategicRejectorResponder 4 eps (Some x) (int m) mn) y g sp d
            = (if - y < get_bad_utility g sp False
               then Inr (False, StrategicRejectorResponder 4 eps (Some x) (int m) mn)
               else if y \<le> mn + eps
               then Inr (True, StrategicRejectorResponder 4 eps (Some x) (int m) mn)
               else if y < x - eps
               then Inr (True, StrategicRejectorResponder 4 eps (Some y) 0 mn)
               else Inr (False, StrategicRejectorResponder 4 eps (Some y) (int m + 1) mn)))"
proof -
  have gen: "respond_all (StrategicRejectorResponder_init 4 eps mn) (replicate (Suc k) x) g sp d
           = Inr (map (\<lambda>j. j < 4) [0..<Suc k],
                  StrategicRejectorResponder 4 eps (Some x) (int k) mn)" for k
  proof -
    have m: "map (\<lambda>j. j < 4) [0..<Suc k] = True # map (\<lambda>j. 0 + 1 + int j < 4) [0..<k]"
      by (simp add: map_upt_Suc del: upt_Suc)
    show ?thesis
      using strategic_first [OF assms(2,3), of 4 d]
            strategic_repeat [OF assms, of 4 0 k d] m
      by (simp del: upt_Suc respond.simps)
  qed
  have five: "[0..<Suc 4] = [0, 1, 2, 3, 4]"
    by (simp add: upt_rec)
  have a: "respond_all (StrategicRejectorResponder_init 4 eps mn) (replicate 5 x) g sp d
           = Inr ([True, True, True, True, False],
                  StrategicRejectorResponder 4 eps (Some x) 4 mn)"
    using gen [of 4] five by (simp add: numeral_eq_Suc del: upt_Suc respond.simps respond_all.simps replicate.simps)
  have b: "4 \<le> m \<longrightarrow>
          respond (StrategicRejectorResponder 4 eps (Some x) (int m) mn) y g sp d
            = (if - y < get_bad_utility g sp False
               then Inr (False, StrategicRejectorResponder 4 eps (Some x) (int m) mn)
               else if y \<le> mn + eps
               then Inr (True, StrategicRejectorResponder 4 eps (Some x) (int m) mn)
               else if y < x - eps
               then Inr (True, StrategicRejectorResponder 4 eps (Some y) 0 mn)
               else Inr (False, StrategicRejectorResponder 4 eps (Some y) (int m + 1) mn))"
    by (simp add: Let_def)
  show ?thesis
    using gen [of n] a b by blast
qed


theorem strategic_rejector_punishes_stagnation_witness:
  "(0::real) \<le> 1/100 \<and> (0::real) + 1/100 < 50
   \<and> get_bad_utility costly_game Player2 False \<le> - 50
   \<and> respond_all (StrategicRejectorResponder_init 4 (1/100) 0) (replicate 5 50)
         costly_game Player2 no_draws
       = Inr ([True, True, True, True, False], StrategicRejectorResponder 4 (1/100) (Some 50) 4 0)
   \<and> respond (StrategicRejectorResponder 4 (1/100) (Some 50) 4 0) 30 costly_game Player2 no_draws
       = Inr (True, StrategicRejectorResponder 4 (1/100) (Some 30) 0 0)
   \<and> respond (StrategicRejectorResponder 4 (1/100) (Some 50) 4 0) 60 costly_game Player2 no_draws
       = Inr (False, StrategicRejectorResponder 4 (1/100) (Some 60) 5 0)
   \<and> respond (StrategicRejectorResponder 4 (1/100) (Some 50) 4 0) 96 costly_game Player2 no_draws
       = Inr (False, StrategicRejectorResponder 4 (1/100) (Some 50) 4 0)
   \<and> respond (StrategicRejectorResponder 4 (1/100) (Some 50) 4 0) 0 costly_game Player2 no_draws
       = Inr (True, StrategicRejectorResponder 4 (1/100) (Some 50) 4 0)"
proof -
  have h1: "(0::real) \<le> 1/100" and h2: "(0::real) + 1/100 < 50" by simp_all
  have h3: "get_bad_utility costly_game Player2 False \<le> - 50"
    by (simp add: costly_game_def Game_init_def get_bad_utility_def)
  have bad: "get_bad_utility costly_game Player2 False = - 95"
    by (simp add: costly_game_def Game_init_def get_bad_utility_def)
  have m: "(4::nat) \<le> 4" by simp
  note t = strategic_rejector_punishes_stagnation
             [OF h1 h2 h3, where d = no_draws and n = 0 and m = 4]
  have t1: "respond_all (StrategicRejectorResponder_init 4 (1/100) 0) (replicate 5 50)
         costly_game Player2 no_draws
       = Inr ([True, True, True, True, False], StrategicRejectorResponder 4 (1/100) (Some 50) 4 0)"
    using t [where y = 0] by blast
  have t30: "respond (StrategicRejectorResponder 4 (1/100) (Some 50) 4 0) 30 costly_game Player2 no_draws
       = Inr (True, StrategicRejectorResponder 4 (1/100) (Some 30) 0 0)"
    using t [where y = 30] m by (simp add: bad del: respond.simps)
  have t60: "respond (StrategicRejectorResponder 4 (1/100) (Some 50) 4 0) 60 costly_game Player2 no_draws
       = Inr (False, StrategicRejectorResponder 4 (1/100) (Some 60) 5 0)"
    using t [where y = 60] m by (simp add: bad del: respond.simps)
  have t96: "respond (StrategicRejectorResponder 4 (1/100) (Some 50) 4 0) 96 costly_game Player2 no_draws
       = Inr (False, StrategicRejectorResponder 4 (1/100) (Some 50) 4 0)"
    using t [where y = 96] m by (simp add: bad del: respond.simps)
  have t0: "respond (StrategicRejectorResponder 4 (1/100) (Some 50) 4 0) 0 costly_game Player2 no_draws
       = Inr (True, StrategicRejectorResponder 4 (1/100) (Some 50) 4 0)"
    using t [where y = 0] m by (simp add: bad del: respond.simps)
  show ?thesis
    using h1 h2 h3 t1 t30 t60 t96 t0 by blast
qed

text \<open>
  The claim as stated, with the streak reset by any change of the offer, fails: after five
  offers of 50 a raised offer of 60 is rejected as well, and the streak stands at 5.
\<close>

theorem strategic_rejector_rejects_raised_offer:
  "respond_all (StrategicRejectorResponder_init 4 (1/100) 0) [50, 50, 50, 50, 50, 60]
     costly_game Player2 no_draws
   = Inr ([True, True, True, True, False, False],
          StrategicRejectorResponder 4 (1/100) (Some 60) 5 0)"
  by (simp add: StrategicRejectorResponder_init_def costly_game_def Game_init_def
        get_bad_utility_def Let_def)

section \<open>The tit-for-tat responder under the engine\<close>

lemma utilitarianised_fields [simp]:
  "p_base (utilitarianised g) = p_base g"
  "p_current (utilitarianised g) = p_current g"
  "p_reject_bump (utilitarianised g) = p_reject_bump g"
  "p_reset_on_accept (utilitarianised g) = p_reset_on_accept g"
  "player_1_bad (utilitarianised g) = player_1_bad g"
  "player_2_bad (utilitarianised g) = player_2_bad g"
  "proposer_bad (utilitarianised g) = proposer_bad g"
  "receiver_bad (utilitarianised g) = receiver_bad g"
  "proposer (utilitarianised g) = proposer g"
  "receiver (utilitarianised g) = receiver g"
  "history (utilitarianised g) = history g"
  "min_offer (utilitarianised g) = min_offer g"
  "max_offer (utilitarianised g) = max_offer g"
  "proposer_random_penalty_range (utilitarianised g) = proposer_random_penalty_range g"
  "receiver_random_penalty_range (utilitarianised g) = receiver_random_penalty_range g"
  by (simp_all add: utilitarianised_def)

lemma utilitarianised_player [simp]:
  "name (get_player (utilitarianised g) i) = name (get_player g i)"
  "utility (get_player (utilitarianised g) i) = utility (get_player g i)"
  "proposer_strategy (get_player (utilitarianised g) i) = proposer_strategy (get_player g i)"
  "responder_strategy (get_player (utilitarianised g) i)
     = as_utilitarian (responder_strategy (get_player g i))"
  by (cases i; simp add: utilitarianised_def get_player_def)+

lemma utilitarianised_update_player:
  assumes "\<And>pl rs. f (pl\<lparr>responder_strategy := rs\<rparr>) = (f pl)\<lparr>responder_strategy := rs\<rparr>"
    and "\<And>pl. responder_strategy (f pl) = responder_strategy pl"
  shows "update_player i f (utilitarianised g) = utilitarianised (update_player i f g)"
  by (cases i) (simp_all add: utilitarianised_def update_player_def assms)

lemma utilitarianised_updates:
  "update_player i (\<lambda>pl. pl\<lparr>responder_strategy := as_utilitarian rs\<rparr>) (utilitarianised g)
     = utilitarianised (update_player i (\<lambda>pl. pl\<lparr>responder_strategy := rs\<rparr>) g)"
  "(utilitarianised g)\<lparr>p_current := v\<rparr> = utilitarianised (g\<lparr>p_current := v\<rparr>)"
  "(utilitarianised g)\<lparr>history := h\<rparr> = utilitarianised (g\<lparr>history := h\<rparr>)"
  "(utilitarianised g)\<lparr>proposer := a, receiver := b\<rparr> = utilitarianised (g\<lparr>proposer := a, receiver := b\<rparr>)"
  by (cases i; simp add: utilitarianised_def update_player_def)+

lemma get_bad_utility_utilitarianised [simp]:
  "get_bad_utility (utilitarianised g) i b = get_bad_utility g i b"
  by (simp add: get_bad_utility_def)

lemma clamp_offer_utilitarianised [simp]:
  "clamp_offer (utilitarianised g) x = clamp_offer g x"
  by (simp add: clamp_offer_def)

lemma simulate_utilitarianised [simp]:
  "simulate_expected_utility hz est x pa (utilitarianised g) i
     = simulate_expected_utility hz est x pa g i"
  by (simp add: simulate_expected_utility_def)

lemma forward_looking_loop_utilitarianised [simp]:
  "forward_looking_loop xs st hz prior est (utilitarianised g) i bo be
     = forward_looking_loop xs st hz prior est g i bo be"
  by (induction xs arbitrary: bo be) (simp_all add: Let_def split: sum.splits)

lemma propose_utilitarianised [simp]:
  "propose ps (utilitarianised g) i d = propose ps g i d"
  by (cases ps) (simp_all split: option.splits)

lemma receive_feedback_utilitarianised [simp]:
  "receive_feedback ps acc x (utilitarianised g) = receive_feedback ps acc x g"
  by (cases ps) (simp_all split: option.splits)

lemma respond_utilitarianised [simp]:
  "respond rs x (utilitarianised g) i d = respond rs x g i d"
  by (cases rs) simp_all

lemma respond_as_utilitarian:
  "respond (as_utilitarian rs) x g i d
     = map_sum id (map_prod id as_utilitarian) (respond rs x g i d)"
proof (cases rs)
  case (TitForTatResponder lo)
  then show ?thesis by (cases lo) (simp_all add: Let_def)
qed (simp_all add: Let_def split: option.splits)

lemma make_offer_utilitarianised:
  "make_offer (utilitarianised g) i d
     = map_sum id (map_prod id utilitarianised) (make_offer g i d)"
  by (simp add: make_offer_def utilitarianised_updates utilitarianised_update_player split: sum.splits prod.splits)

lemma respond_to_offer_utilitarianised:
  "respond_to_offer (utilitarianised g) i x d
     = map_sum id (map_prod id utilitarianised) (respond_to_offer g i x d)"
  by (simp add: respond_to_offer_def respond_as_utilitarian utilitarianised_updates utilitarianised_update_player
        split: sum.splits prod.splits)

lemma notify_observer_utilitarianised:
  "notify_observer (utilitarianised g) x = utilitarianised (notify_observer g x)"
  by (simp add: notify_observer_def utilitarianised_updates utilitarianised_update_player)

lemma settle_utilitarianised:
  "settle (utilitarianised g) x acc d = utilitarianised (settle g x acc d)"
  by (simp add: settle_def add_utility_def Let_def utilitarianised_updates utilitarianised_update_player)

lemma append_history_utilitarianised:
  "append_history (utilitarianised g) x acc = utilitarianised (append_history g x acc)"
  by (simp add: append_history_def utilitarianised_updates utilitarianised_update_player player1_get)

lemma feedback_utilitarianised:
  "feedback (utilitarianised g) acc x = map_sum id utilitarianised (feedback g acc x)"
  by (simp add: feedback_def utilitarianised_updates utilitarianised_update_player split: sum.splits)

lemma maybe_switch_roles_utilitarianised:
  "maybe_switch_roles (utilitarianised g) d = utilitarianised (maybe_switch_roles g d)"
  by (simp add: maybe_switch_roles_def utilitarianised_updates utilitarianised_update_player)

lemma play_round_utilitarianised:
  "play_round (utilitarianised g) d = map_sum id utilitarianised (play_round g d)"
  by (simp add: play_round_def make_offer_utilitarianised respond_to_offer_utilitarianised
        notify_observer_utilitarianised settle_utilitarianised append_history_utilitarianised
        feedback_utilitarianised maybe_switch_roles_utilitarianised Let_def
        split: sum.splits prod.splits)

lemma run_utilitarianised:
  "run (utilitarianised g) ds = map_sum id utilitarianised (run g ds)"
  by (induction ds arbitrary: g) (simp_all add: play_round_utilitarianised split: sum.splits)

lemma ratchet_run: "run ratchet_game [no_draws, no_draws] = Inr after_ratchet"
  by (simp add: after_ratchet_def ratchet_game_def LearningProposer_init_def
        TitForTatResponder_init_def scenario_defs)

lemma play_round_responder_strategy:
  assumes "play_round g d = Inr g'"
  obtains x acc rs h where
    "respond (responder_strategy (get_player g (receiver g))) x h (receiver g) d = Inr (acc, rs)"
    "\<forall>i. responder_strategy (get_player g' i) =
       (if i = receiver g then rs else responder_strategy (get_player g i))"
proof -
  from assms obtain x ps acc rs ps' g1 g2 g3 g5 where
    g1: "g1 = update_player (proposer g) (\<lambda>pl. pl\<lparr>proposer_strategy := ps\<rparr>) g"
    and g2: "g2 = notify_observer g1 x"
    and rp: "respond (responder_strategy (get_player g2 (receiver g2))) x g2 (receiver g2) d
             = Inr (acc, rs)"
    and g3: "g3 = update_player (receiver g2) (\<lambda>pl. pl\<lparr>responder_strategy := rs\<rparr>) g2"
    and g5: "g5 = append_history (settle g3 x acc d) x acc"
    and g': "g' = maybe_switch_roles
                    (update_player (proposer g5) (\<lambda>pl. pl\<lparr>proposer_strategy := ps'\<rparr>) g5) d"
    by (rule play_round_InrE)
  have r2: "receiver g2 = receiver g"
    by (simp add: g2 g1)
  have s2: "responder_strategy (get_player g2 i) = responder_strategy (get_player g i)" for i
    by (simp add: g2 g1)
  have s3: "responder_strategy (get_player g3 i) =
              (if i = receiver g then rs else responder_strategy (get_player g i))" for i
    by (simp add: g3 r2 s2)
  have s5: "responder_strategy (get_player g5 i) = responder_strategy (get_player g3 i)" for i
    by (simp add: g5)
  have s': "responder_strategy (get_player g' i) = responder_strategy (get_player g5 i)" for i
    by (simp add: g')
  have rp': "respond (responder_strategy (get_player g (receiver g))) x g2 (receiver g) d
             = Inr (acc, rs)"
    using rp by (simp add: r2 s2)
  have all: "\<forall>i. responder_strategy (get_player g' i) =
       (if i = receiver g then rs else responder_strategy (get_player g i))"
    by (simp add: s' s5 s3)
  show thesis
    using that [OF rp' all] .
qed

lemma respond_fresh_tit_for_tat:
  "respond (TitForTatResponder None) x h self_player d
     = Inr (- x > (if self_player = Player1 then player_1_bad h else player_2_bad h)
                  + receiver_bad h,
            TitForTatResponder None)"
  by (simp add: Let_def)

lemma play_round_fresh_tit_for_tat:
  assumes "responder_strategy (get_player g i) = TitForTatResponder None"
    and "play_round g d = Inr g'"
  shows "responder_strategy (get_player g' i) = TitForTatResponder None"
proof -
  from assms(2) obtain x acc rs h where
    rp: "respond (responder_strategy (get_player g (receiver g))) x h (receiver g) d = Inr (acc, rs)"
    and st: "\<forall>i. responder_strategy (get_player g' i) =
       (if i = receiver g then rs else responder_strategy (get_player g i))"
    by (rule play_round_responder_strategy)
  show ?thesis
  proof (cases "i = receiver g")
    case True
    then have "rs = TitForTatResponder None"
      using rp assms(1) by (simp add: respond_fresh_tit_for_tat del: respond.simps)
    then show ?thesis using st True by simp
  next
    case False
    then show ?thesis using st assms(1) by simp
  qed
qed

text \<open>
  Claim C10. \<open>play_round\<close> calls no responder's \<open>receive_feedback\<close>. So in any run of any
  game a responder built by \<^verbatim>\<open>TitForTatResponder()\<close> still has \<open>last_offer = None\<close>; each of
  its \<open>respond\<close> calls accepts exactly when the negated offer strictly exceeds the player's
  flat cost plus \<open>receiver_bad\<close>, which is the decision of \<open>UtilitarianResponder\<close>; and the
  game with \<open>UtilitarianResponder\<close> in its place runs to the same history and utilities,
  with the same draws, round for round.
\<close>

theorem tit_for_tat_responder_never_gets_feedback:
  assumes "responder_strategy (get_player g i) = TitForTatResponder_init"
    and "run g ds = Inr g'"
  shows "responder_strategy (get_player g' i) = TitForTatResponder None
     \<and> respond (responder_strategy (get_player g' i)) x h self_player d
         = Inr (- x > (if self_player = Player1 then player_1_bad h else player_2_bad h)
                      + receiver_bad h,
                TitForTatResponder None)
     \<and> map_sum id fst (respond (responder_strategy (get_player g' i)) x h self_player d)
         = map_sum id fst (respond UtilitarianResponder x h self_player d)
     \<and> responder_strategy (get_player (utilitarianised g) i) = UtilitarianResponder
     \<and> run (utilitarianised g) ds = Inr (utilitarianised g')
     \<and> history (utilitarianised g') = history g'
     \<and> utility (get_player (utilitarianised g') Player1) = utility (get_player g' Player1)
     \<and> utility (get_player (utilitarianised g') Player2) = utility (get_player g' Player2)"
proof -
  have "responder_strategy (get_player g i) = TitForTatResponder None"
    using assms(1) by (simp add: TitForTatResponder_init_def)
  then have fresh: "responder_strategy (get_player g' i) = TitForTatResponder None"
    by (rule run_invariant
              [where I = "\<lambda>g. responder_strategy (get_player g i) = TitForTatResponder None",
               OF _ assms(2)])
       (rule play_round_fresh_tit_for_tat)
  have sim: "run (utilitarianised g) ds = Inr (utilitarianised g')"
    using run_utilitarianised [of g ds] assms(2) by simp
  have u: "responder_strategy (get_player (utilitarianised g) i) = UtilitarianResponder"
    using assms(1) by (simp add: TitForTatResponder_init_def)
  show ?thesis
    using fresh sim u by (simp add: Let_def)
qed


theorem tit_for_tat_responder_never_gets_feedback_witness:
  "responder_strategy (get_player ratchet_game Player2) = TitForTatResponder_init
   \<and> run ratchet_game [no_draws, no_draws] = Inr after_ratchet
   \<and> responder_strategy (get_player after_ratchet Player2) = TitForTatResponder None
   \<and> respond (responder_strategy (get_player after_ratchet Player2)) 3 ratchet_game Player2 no_draws
       = Inr (True, TitForTatResponder None)
   \<and> run (utilitarianised ratchet_game) [no_draws, no_draws] = Inr (utilitarianised after_ratchet)
   \<and> history (utilitarianised after_ratchet) = history after_ratchet"
proof -
  have s: "responder_strategy (get_player ratchet_game Player2) = TitForTatResponder_init"
    by (simp add: ratchet_game_def Game_init_def Player_init_def get_player_def)
  have c: "player_2_bad ratchet_game = -10" "receiver_bad ratchet_game = 5"
    by (simp_all add: ratchet_game_def Game_init_def)
  note t = tit_for_tat_responder_never_gets_feedback
             [OF s ratchet_run, of 3 ratchet_game Player2 no_draws]
  have t1: "responder_strategy (get_player after_ratchet Player2) = TitForTatResponder None"
    using t by blast
  have t2: "respond (responder_strategy (get_player after_ratchet Player2)) 3 ratchet_game
              Player2 no_draws
            = Inr (- 3 > (if Player2 = Player1 then player_1_bad ratchet_game
                          else player_2_bad ratchet_game) + receiver_bad ratchet_game,
                   TitForTatResponder None)"
    using t by blast
  have t3: "run (utilitarianised ratchet_game) [no_draws, no_draws]
            = Inr (utilitarianised after_ratchet)"
    using t by blast
  have t4: "history (utilitarianised after_ratchet) = history after_ratchet"
    using t by blast
  have t2': "respond (responder_strategy (get_player after_ratchet Player2)) 3 ratchet_game
              Player2 no_draws
            = Inr (True, TitForTatResponder None)"
    using t2 by (simp add: c)
  show ?thesis
    using s ratchet_run t1 t2' t3 t4 by blast
qed

section \<open>The ratchet of the tit-for-tat responder\<close>

text \<open>
  Claim C5 does not hold of the code. Player 2 responds with one \<open>TitForTatResponder\<close> for
  two rounds; it accepts offer 0 (utility 0) and then offer 3 (utility -3), a worse deal
  than the one it accepted before, because its \<open>last_offer\<close> is still \<^verbatim>\<open>None\<close>.
\<close>

theorem tit_for_tat_responder_accepts_worse_deal:
  "run ratchet_game [no_draws, no_draws] = Inr after_ratchet
   \<and> map rr_offer (history after_ratchet) = [0, 3]
   \<and> map rr_accepted (history after_ratchet) = [True, True]
   \<and> map rr_proposer (history after_ratchet) = [''Player 1'', ''Player 1'']
   \<and> map rr_player2_utility (history after_ratchet) = [0, -3]
   \<and> responder_strategy (player2 after_ratchet) = TitForTatResponder None"
  using ratchet_run by (simp add: after_ratchet_def)


end
